theory Spec2Isabelle
  imports Complex_Main "HOL-Library.Sublist"
begin

section \<open>Numbers and strings of the Python sources\<close>

text \<open>
  Python floats are modelled as exact reals: the constants of the sources (0.4, 2.28, ...)
  are the decimal fractions they denote, and the arithmetic is exact.  Where the
  validate worker rounds or truncates what it computed, its float operations are
  parameters of the model instead (see \<open>float_ops\<close> below).  Python ints are unbounded and
  are modelled as \<open>int\<close>.
\<close>

text \<open>Python's \<open>int(x)\<close> on a float: truncation towards zero.\<close>

definition py_int :: "real \<Rightarrow> int" where
  "py_int v = (if 0 \<le> v then \<lfloor>v\<rfloor> else \<lceil>v\<rceil>)"

text \<open>
  Python's \<open>round(x, d)\<close>: the nearest multiple of \<open>10\<^sup>-\<^sup>d\<close>, a tie going to the even
  neighbour.
\<close>

definition py_round :: "real \<Rightarrow> nat \<Rightarrow> real" where
  "py_round v d =
     (let n = \<lfloor>v * 10 ^ d\<rfloor>; r = v * 10 ^ d - of_int n
      in if r < 1 / 2 then of_int n / 10 ^ d
         else if 1 / 2 < r then of_int (n + 1) / 10 ^ d
         else if even n then of_int n / 10 ^ d else of_int (n + 1) / 10 ^ d)"

text \<open>Decimal rendering of a natural number, as an f-string prints it.\<close>

fun string_of_nat :: "nat \<Rightarrow> string" where
  "string_of_nat n =
     (if n < 10 then [''0123456789'' ! n]
      else string_of_nat (n div 10) @ [''0123456789'' ! (n mod 10)])"

declare string_of_nat.simps [simp del]

section \<open>Layout worker: data\<close>

record dimensions =
  width :: real
  depth :: real
  height :: real

text \<open>An entry of the furniture catalog (a dict of \<open>generate_furniture_catalog\<close>).\<close>

record furniture =
  f_id :: string
  f_name :: string
  f_category :: string
  f_dimensions :: dimensions
  f_clearances :: "(string \<times> real) list"
  f_price_cents :: int
  f_style_tags :: "string list"
  f_placement_rules :: "string list"
  f_priority :: int

record bounds =
  min_x :: real
  min_y :: real
  max_x :: real
  max_y :: real

record wall =
  wall_id :: string
  wall_start :: "real \<times> real"
  wall_end :: "real \<times> real"
  wall_thickness :: "real option"

record door =
  door_id :: string
  door_position :: "real \<times> real"
  door_width :: "real option"

record window =
  window_id :: string
  window_position :: "real \<times> real"

text \<open>
  The floor plan dict.  Keys read with \<open>.get(key, default)\<close> are optional fields; an
  absent \<open>bounds\<close> is the empty dict of the source.
\<close>

record floor_plan =
  fp_area_sqm :: "real option"
  fp_bounds :: "bounds option"
  fp_walls :: "wall list"
  fp_doors :: "door list"
  fp_windows :: "window list"

text \<open>A placement of a layout solution, and the placement enriched by post-processing.\<close>

record placement =
  furniture_id :: string
  p_x :: real
  p_y :: real
  p_rotation :: real
  anchor_type :: string

record enriched_placement = placement +
  furniture_name :: string
  p_dimensions :: dimensions
  price_cents :: int

record solution =
  s_strategy :: string
  s_name :: string
  s_placements :: "placement list"

record metrics =
  total_cost_cents :: int
  furniture_count :: nat
  coverage_ratio :: real
  flow_score :: real

record layout =
  l_id :: string
  l_name :: string
  l_strategy :: string
  l_placements :: "enriched_placement list"
  l_score :: real
  l_rationale :: string
  l_violations :: "string list"
  l_metrics :: metrics

section \<open>Layout worker: catalog filter\<close>

definition mk_furniture ::
  "string \<Rightarrow> string \<Rightarrow> string \<Rightarrow> real \<Rightarrow> real \<Rightarrow> real \<Rightarrow> (string \<times> real) list \<Rightarrow> int \<Rightarrow>
   string list \<Rightarrow> string list \<Rightarrow> int \<Rightarrow> furniture" where
  "mk_furniture i n c w d h cl pr st rules prio =
     \<lparr>f_id = i, f_name = n, f_category = c,
      f_dimensions = \<lparr>width = w, depth = d, height = h\<rparr>,
      f_clearances = cl, f_price_cents = pr, f_style_tags = st,
      f_placement_rules = rules, f_priority = prio\<rparr>"

definition sofa_3seat :: furniture where
  "sofa_3seat = mk_furniture ''sofa_3seat'' ''3-Seat Sofa'' ''seating'' 2.28 0.95 0.83
     [(''front'', 0.8), (''back'', 0.3), (''sides'', 0.3)] 79900
     [''modern'', ''traditional''] [''against_wall'', ''room_center''] 1"

definition armchair :: furniture where
  "armchair = mk_furniture ''armchair'' ''Armchair'' ''seating'' 0.8 0.85 0.9
     [(''front'', 0.6), (''back'', 0.2), (''sides'', 0.2)] 39900
     [''modern'', ''traditional'', ''minimalist''] [''corner'', ''accent''] 2"

definition coffee_table :: furniture where
  "coffee_table = mk_furniture ''coffee_table'' ''Coffee Table'' ''table'' 1.2 0.6 0.45
     [(''all'', 0.4)] 24999
     [''modern'', ''minimalist''] [''sofa_front''] 2"

definition side_table :: furniture where
  "side_table = mk_furniture ''side_table'' ''Side Table'' ''table'' 0.5 0.5 0.55
     [(''all'', 0.2)] 12999
     [''modern'', ''traditional''] [''sofa_side'', ''chair_side''] 3"

definition tv_stand :: furniture where
  "tv_stand = mk_furniture ''tv_stand'' ''TV Stand'' ''storage'' 1.5 0.4 0.6
     [(''front'', 1.5), (''back'', 0.1), (''sides'', 0.2)] 34999
     [''modern'', ''minimalist''] [''against_wall'', ''tv_viewing''] 2"

definition bookshelf :: furniture where
  "bookshelf = mk_furniture ''bookshelf'' ''Bookshelf'' ''storage'' 0.8 0.3 1.8
     [(''front'', 0.5), (''back'', 0.1), (''sides'', 0.1)] 29999
     [''traditional'', ''modern''] [''against_wall''] 3"

definition desk :: furniture where
  "desk = mk_furniture ''desk'' ''Desk'' ''work'' 1.2 0.6 0.75
     [(''front'', 1), (''back'', 0.3), (''sides'', 0.3)] 45999
     [''modern'', ''minimalist''] [''against_wall'', ''window_adjacent''] 2"

definition office_chair :: furniture where
  "office_chair = mk_furniture ''office_chair'' ''Office Chair'' ''seating'' 0.6 0.6 1.2
     [(''front'', 0.8), (''back'', 0.5), (''sides'', 0.3)] 25999
     [''modern'', ''ergonomic''] [''desk_pair''] 2"

definition base_catalog :: "furniture list" where
  "base_catalog =
     [sofa_3seat, armchair, coffee_table, side_table, tv_stand, bookshelf, desk, office_chair]"

definition style_match :: "string list \<Rightarrow> furniture \<Rightarrow> bool" where
  "style_match style_prefs item = list_ex (\<lambda>style. style \<in> set (f_style_tags item)) style_prefs"

definition within_budget :: "int \<Rightarrow> furniture \<Rightarrow> bool" where
  "within_budget budget item = (real_of_int (f_price_cents item) \<le> real_of_int budget * 0.4)"

definition small_footprint :: "furniture \<Rightarrow> bool" where
  "small_footprint item = (width (f_dimensions item) * depth (f_dimensions item) < 2)"

text \<open>
  The catalog filter.  \<open>if style_prefs:\<close> and \<open>if budget_cents:\<close> are Python truthiness
  tests: an empty list, \<open>None\<close> and the integer \<open>0\<close> are all false, so the budget filter
  runs only for a budget that is present and non-zero.
\<close>

definition generate_furniture_catalog ::
  "floor_plan \<Rightarrow> string list \<Rightarrow> int option \<Rightarrow> furniture list" where
  "generate_furniture_catalog fp style_prefs budget_cents =
     (let area_sqm = (case fp_area_sqm fp of None \<Rightarrow> 20 | Some a \<Rightarrow> a);
          by_style =
            (if style_prefs \<noteq> [] then
               (let filtered_catalog = filter (style_match style_prefs) base_catalog
                in if filtered_catalog \<noteq> [] then filtered_catalog else base_catalog)
             else base_catalog);
          by_budget =
            (case budget_cents of
               None \<Rightarrow> by_style
             | Some b \<Rightarrow> if b \<noteq> 0 then filter (within_budget b) by_style else by_style)
      in if area_sqm < 15 then filter small_footprint by_budget else by_budget)"


section \<open>Layout worker: model, solutions, post-processing\<close>

datatype py_error = ZeroDivisionError | Raised

definition get_default :: "(string \<times> real) list \<Rightarrow> string \<Rightarrow> real \<Rightarrow> real" where
  "get_default d k v = (case map_of d k of None \<Rightarrow> v | Some w \<Rightarrow> w)"

record constraint_model =
  cm_room_bounds :: "bounds option"
  cm_grid_size :: real
  cm_grid_width :: int
  cm_grid_height :: int
  cm_furniture_catalog :: "furniture list"
  cm_walls :: "wall list"
  cm_doors :: "door list"
  cm_windows :: "window list"
  cm_constraints :: "(string \<times> real) list"

definition build_constraint_model ::
  "bounds option \<Rightarrow> wall list \<Rightarrow> door list \<Rightarrow> window list \<Rightarrow> furniture list \<Rightarrow>
   (string \<times> real) list \<Rightarrow> constraint_model" where
  "build_constraint_model room_bounds walls doors windows furniture_catalog constraints =
     (let room_width = (case room_bounds of None \<Rightarrow> 5 - 0 | Some b \<Rightarrow> max_x b - min_x b);
          room_height = (case room_bounds of None \<Rightarrow> 4 - 0 | Some b \<Rightarrow> max_y b - min_y b);
          grid_size = 0.2
      in \<lparr>cm_room_bounds = room_bounds, cm_grid_size = grid_size,
          cm_grid_width = py_int (room_width / grid_size),
          cm_grid_height = py_int (room_height / grid_size),
          cm_furniture_catalog = furniture_catalog,
          cm_walls = walls, cm_doors = doors, cm_windows = windows,
          cm_constraints =
            [(''min_walkway_width'', get_default constraints ''min_walkway_width'' 0.8),
             (''min_door_clearance'', get_default constraints ''min_door_clearance'' 0.8),
             (''min_window_access'', get_default constraints ''min_window_access'' 0.6),
             (''tv_viewing_distance_min'', get_default constraints ''tv_viewing_distance_min'' 1.5),
             (''tv_viewing_distance_max'', get_default constraints ''tv_viewing_distance_max'' 4),
             (''tv_viewing_angle_max'', get_default constraints ''tv_viewing_angle_max'' 30)]\<rparr>)"

text \<open>\<open>next((f for f in furniture_catalog if f["id"] == i), None)\<close>\<close>

definition find_item :: "furniture list \<Rightarrow> string \<Rightarrow> furniture option" where
  "find_item furniture_catalog i = List.find (\<lambda>f. f_id f = i) furniture_catalog"

text \<open>\<open>if item: placements.append({...})\<close>\<close>

definition place :: "furniture option \<Rightarrow> real \<Rightarrow> real \<Rightarrow> real \<Rightarrow> string \<Rightarrow> placement list" where
  "place item px py rot anchor =
     (case item of
        None \<Rightarrow> []
      | Some f \<Rightarrow> [\<lparr>furniture_id = f_id f, p_x = px, p_y = py, p_rotation = rot, anchor_type = anchor\<rparr>])"

definition generate_layout_solution :: "constraint_model \<Rightarrow> string \<Rightarrow> string \<Rightarrow> solution" where
  "generate_layout_solution model strategy name =
     (let furniture_catalog = cm_furniture_catalog model;
          placements =
            (if strategy = ''conversation_focused'' then
               place (find_item furniture_catalog ''sofa_3seat'') 1 0.5 0 ''wall_aligned'' @
               place (find_item furniture_catalog ''coffee_table'') 1 1.8 0 ''sofa_front'' @
               place (find_item furniture_catalog ''armchair'') 3.5 1 270 ''conversation_angle''
             else if strategy = ''work_focused'' then
               place (find_item furniture_catalog ''desk'') 4 1 90 ''window_adjacent'' @
               place (find_item furniture_catalog ''office_chair'') 3.2 1 90 ''desk_pair'' @
               place (find_item furniture_catalog ''sofa_3seat'') 1 2.5 0 ''wall_aligned''
             else
               place (find_item furniture_catalog ''tv_stand'') 2.5 0.2 0 ''wall_centered'' @
               place (find_item furniture_catalog ''sofa_3seat'') 2.5 2.8 180 ''tv_viewing'' @
               place (find_item furniture_catalog ''side_table'') 1 2.8 0 ''sofa_side'')
      in \<lparr>s_strategy = strategy, s_name = name, s_placements = placements\<rparr>)"

definition variant_solution :: "constraint_model \<Rightarrow> nat \<Rightarrow> solution" where
  "variant_solution model variant =
     (if variant = 0 then generate_layout_solution model ''conversation_focused'' ''Cozy Conversation''
      else if variant = 1 then generate_layout_solution model ''work_focused'' ''Work & Lounge''
      else generate_layout_solution model ''entertainment_focused'' ''Entertainment Hub'')"

definition solve_layout_variants :: "constraint_model \<Rightarrow> nat \<Rightarrow> solution list" where
  "solve_layout_variants model num_variants = map (variant_solution model) [0..<num_variants]"

definition calculate_layout_score :: "solution \<Rightarrow> furniture list \<Rightarrow> floor_plan \<Rightarrow> real" where
  "calculate_layout_score sol furniture_catalog fp =
     (let placement_score = 0.8; flow_score = 0.9; function_score = 0.85; aesthetic_score = 0.75;
          total_score = placement_score * 0.3 + flow_score * 0.3 + function_score * 0.25
                        + aesthetic_score * 0.15
      in py_round total_score 3)"

definition generate_layout_rationale :: "solution \<Rightarrow> real \<Rightarrow> string" where
  "generate_layout_rationale sol score =
     (let rationales =
            [(''conversation_focused'', ''Optimized for social interaction with furniture arranged to encourage conversation and comfortable seating distances.''),
             (''work_focused'', ''Designed for productivity with dedicated workspace near natural light and separate relaxation area.''),
             (''entertainment_focused'', ''Centered around media consumption with optimal TV viewing angles and comfortable seating arrangement.'')];
          base_rationale =
            (case map_of rationales (s_strategy sol) of
               None \<Rightarrow> ''Balanced layout considering room constraints and user preferences.''
             | Some r \<Rightarrow> r)
      in if 0.85 \<le> score then base_rationale @ '' Excellent spatial efficiency and flow.''
         else if 0.75 \<le> score then base_rationale @ '' Good balance of function and aesthetics.''
         else base_rationale @ '' Functional arrangement with room for optimization.'')"

text \<open>The pairs \<open>(xs[i], xs[j])\<close>, \<open>i < j\<close>, in the order of the two nested loops.\<close>

fun pairs :: "'a list \<Rightarrow> ('a \<times> 'a) list" where
  "pairs [] = []"
| "pairs (a # as) = map (Pair a) as @ pairs as"

definition check_furniture_overlap :: "placement \<Rightarrow> placement \<Rightarrow> furniture list \<Rightarrow> bool" where
  "check_furniture_overlap p1 p2 furniture_catalog =
     (let d = sqrt ((p_x p1 - p_x p2)\<^sup>2 + (p_y p1 - p_y p2)\<^sup>2) in d < 1)"

definition check_clearance_requirements :: "placement \<Rightarrow> furniture list \<Rightarrow> floor_plan \<Rightarrow> bool" where
  "check_clearance_requirements p furniture_catalog fp = True"

definition validate_layout_constraints :: "solution \<Rightarrow> furniture list \<Rightarrow> floor_plan \<Rightarrow> string list" where
  "validate_layout_constraints sol furniture_catalog fp =
     (let placements = s_placements sol
      in map (\<lambda>(p1, p2). ''Furniture overlap detected between '' @ furniture_id p1 @ '' and ''
                          @ furniture_id p2)
           (filter (\<lambda>(p1, p2). check_furniture_overlap p1 p2 furniture_catalog) (pairs placements))
         @ map (\<lambda>p. ''Insufficient clearance around '' @ furniture_id p)
             (filter (\<lambda>p. \<not> check_clearance_requirements p furniture_catalog fp) placements))"

definition enrich :: "furniture list \<Rightarrow> placement \<Rightarrow> enriched_placement list" where
  "enrich furniture_catalog p =
     (case find_item furniture_catalog (furniture_id p) of
        None \<Rightarrow> []
      | Some f \<Rightarrow>
          [\<lparr>furniture_id = furniture_id p, p_x = p_x p, p_y = p_y p, p_rotation = p_rotation p,
            anchor_type = anchor_type p, furniture_name = f_name f,
            p_dimensions = f_dimensions f, price_cents = f_price_cents f\<rparr>])"

text \<open>
  \<open>min(1.0, furniture_area / total_area)\<close>: Python raises \<open>ZeroDivisionError\<close> when the
  floor plan's \<open>area_sqm\<close> is zero.
\<close>

definition calculate_coverage_ratio :: "enriched_placement list \<Rightarrow> floor_plan \<Rightarrow> py_error + real" where
  "calculate_coverage_ratio placements fp =
     (let total_area = (case fp_area_sqm fp of None \<Rightarrow> 20 | Some a \<Rightarrow> a);
          furniture_area = (\<Sum>p\<leftarrow>placements. width (p_dimensions p) * depth (p_dimensions p))
      in if total_area = 0 then Inl ZeroDivisionError
         else Inr (min 1 (furniture_area / total_area)))"

definition calculate_flow_score :: "enriched_placement list \<Rightarrow> floor_plan \<Rightarrow> real" where
  "calculate_flow_score placements fp = 0.85"

definition post_process_layout ::
  "solution \<Rightarrow> furniture list \<Rightarrow> floor_plan \<Rightarrow> string \<Rightarrow> py_error + layout" where
  "post_process_layout sol furniture_catalog fp layout_id =
     (let score = calculate_layout_score sol furniture_catalog fp;
          rationale = generate_layout_rationale sol score;
          violations = validate_layout_constraints sol furniture_catalog fp;
          enriched_placements = concat (map (enrich furniture_catalog) (s_placements sol))
      in case calculate_coverage_ratio enriched_placements fp of
           Inl e \<Rightarrow> Inl e
         | Inr coverage \<Rightarrow>
             Inr \<lparr>l_id = layout_id, l_name = s_name sol, l_strategy = s_strategy sol,
                  l_placements = enriched_placements, l_score = score,
                  l_rationale = rationale, l_violations = violations,
                  l_metrics =
                    \<lparr>total_cost_cents = (\<Sum>p\<leftarrow>enriched_placements. price_cents p),
                     furniture_count = length enriched_placements,
                     coverage_ratio = coverage,
                     flow_score = calculate_flow_score enriched_placements fp\<rparr>\<rparr>)"

section \<open>Layout worker: the job and its progress stream\<close>

record job =
  job_id :: string
  room_id :: string
  job_floor_plan :: floor_plan
  job_constraints :: "(string \<times> real) list"
  job_style_prefs :: "string list"
  job_budget_cents :: "int option"

datatype status = completed | failed

record layout_result =
  r_job_id :: string
  r_status :: status
  r_layouts :: "layout list option"
  r_error :: "py_error option"
  r_progress :: real

text \<open>
  A record of the progress stream \<open>job_progress:{job_id}\<close> (the timestamp, read from the
  event loop's clock, is left out).
\<close>

record progress_record =
  pr_job_id :: string
  pr_progress :: real
  pr_message :: string

text \<open>
  \<open>update_job_progress\<close> appends to the stream when the Redis client is connected and
  does nothing otherwise.
\<close>

definition update_job_progress ::
  "bool \<Rightarrow> string \<Rightarrow> real \<Rightarrow> string \<Rightarrow> progress_record list \<Rightarrow> progress_record list" where
  "update_job_progress redis_client jid progress message stream =
     (if redis_client
      then stream @ [\<lparr>pr_job_id = jid, pr_progress = progress, pr_message = message\<rparr>]
      else stream)"

text \<open>
  The loop \<open>for i, solution in enumerate(layout_solutions)\<close> of \<open>generate_layouts\<close>; the
  first exception leaves the loop.
\<close>

fun post_process_all ::
  "string \<Rightarrow> furniture list \<Rightarrow> floor_plan \<Rightarrow> nat \<Rightarrow> solution list \<Rightarrow> py_error + layout list" where
  "post_process_all jid furniture_catalog fp i [] = Inr []"
| "post_process_all jid furniture_catalog fp i (sol # sols) =
     (case post_process_layout sol furniture_catalog fp
             (jid @ ''_layout_'' @ string_of_nat (i + 1)) of
        Inl e \<Rightarrow> Inl e
      | Inr l \<Rightarrow>
          (case post_process_all jid furniture_catalog fp (i + 1) sols of
             Inl e \<Rightarrow> Inl e
           | Inr ls \<Rightarrow> Inr (l # ls)))"

text \<open>
  \<open>generate_layouts\<close>, with the progress stream passed explicitly.  The body is one
  \<open>try\<close> block whose handler returns a failed result without writing to the stream.
  Any awaited call may raise (a lost Redis connection, for one): \<open>raises k\<close> says whether
  the \<open>k\<close>-th awaited call of the body does, the calls being numbered in program order
  (0: progress 0.1, 1: progress 0.2, 2: catalog, 3: progress 0.3, 4: model,
  5: progress 0.5, 6: solve, 7: progress 0.8, 8: post-processing, 9: progress 1).
  A progress call that raises has not written its record.
\<close>

definition generate_layouts ::
  "bool \<Rightarrow> (nat \<Rightarrow> bool) \<Rightarrow> job \<Rightarrow> progress_record list \<Rightarrow> layout_result \<times> progress_record list" where
  "generate_layouts redis_client raises job_data stream0 =
     (let jid = job_id job_data;
          fp = job_floor_plan job_data;
          failure = (\<lambda>e stream.
            (\<lparr>r_job_id = jid, r_status = failed, r_layouts = None, r_error = Some e,
              r_progress = 0\<rparr>, stream));
          stream1 = update_job_progress redis_client jid 0.1 ''Initializing constraint model'' stream0;
          stream2 = update_job_progress redis_client jid 0.2 ''Analyzing room geometry'' stream1;
          furniture_catalog =
            generate_furniture_catalog fp (job_style_prefs job_data) (job_budget_cents job_data);
          stream3 = update_job_progress redis_client jid 0.3 ''Building constraint model'' stream2;
          model = build_constraint_model (fp_bounds fp) (fp_walls fp) (fp_doors fp) (fp_windows fp)
                    furniture_catalog (job_constraints job_data);
          stream4 = update_job_progress redis_client jid 0.5 ''Solving layout constraints'' stream3;
          layout_solutions = solve_layout_variants model 3;
          stream5 = update_job_progress redis_client jid 0.8 ''Optimizing and scoring layouts'' stream4;
          stream6 = update_job_progress redis_client jid 1 ''Layout generation complete'' stream5
      in if raises 0 then failure Raised stream0
         else if raises 1 then failure Raised stream1
         else if raises 2 \<or> raises 3 then failure Raised stream2
         else if raises 4 \<or> raises 5 then failure Raised stream3
         else if raises 6 \<or> raises 7 then failure Raised stream4
         else if raises 8 then failure Raised stream5
         else case post_process_all jid furniture_catalog fp 0 layout_solutions of
                Inl e \<Rightarrow> failure e stream5
              | Inr layouts \<Rightarrow>
                  if raises 9 then failure Raised stream5
                  else (\<lparr>r_job_id = jid, r_status = completed, r_layouts = Some layouts,
                         r_error = None, r_progress = 1\<rparr>, stream6))"

section \<open>Geometry\<close>

text \<open>
  The validator builds its geometry with an external library (Shapely).  A geometry is
  modelled by the list of its vertices.
\<close>

type_synonym point = "real \<times> real"

type_synonym polygon = "point list"

subsection \<open>The library as a parameter\<close>

text \<open>
  What the library computes from geometries is not code of the repository.  The validator
  therefore takes the library as a parameter: a record with one field for every library
  call of \<open>validate-worker/main.py\<close>.

  \<^item> \<open>lib_convex_hull ps\<close> is \<open>Polygon(ps).convex_hull\<close>,
  \<open>lib_buffer_line a b r\<close> is \<open>LineString([a, b]).buffer(r)\<close> and
  \<open>lib_buffer_point p r\<close> is \<open>Point(p).buffer(r)\<close>;
  \<^item> \<open>lib_centroid g\<close> is \<open>g.centroid\<close> and \<open>lib_area g\<close> is \<open>g.area\<close>;
  \<^item> \<open>lib_intersects a b\<close> is \<open>a.intersects(b)\<close> and \<open>lib_intersection_area a b\<close> is
  \<open>a.intersection(b).area\<close>;
  \<^item> \<open>lib_contains a b\<close> is \<open>a.contains(b)\<close> for a polygon \<open>b\<close> and \<open>lib_contains_point a p\<close>
  is \<open>a.contains(Point(p))\<close>;
  \<^item> \<open>lib_distance a b\<close> is \<open>a.distance(b)\<close> and \<open>lib_point_distance p g\<close> is
  \<open>Point(p).distance(g)\<close>;
  \<^item> \<open>lib_walkable_area room gs\<close> is \<open>room.difference(unary_union(gs)).area\<close>.

  The numbers a library function returns are the floats the library computed, read as
  reals.
\<close>

record geometry_library =
  lib_convex_hull :: "point list \<Rightarrow> polygon"
  lib_buffer_line :: "point \<Rightarrow> point \<Rightarrow> real \<Rightarrow> polygon"
  lib_buffer_point :: "point \<Rightarrow> real \<Rightarrow> polygon"
  lib_centroid :: "polygon \<Rightarrow> point"
  lib_area :: "polygon \<Rightarrow> real"
  lib_intersects :: "polygon \<Rightarrow> polygon \<Rightarrow> bool"
  lib_intersection_area :: "polygon \<Rightarrow> polygon \<Rightarrow> real"
  lib_contains :: "polygon \<Rightarrow> polygon \<Rightarrow> bool"
  lib_contains_point :: "polygon \<Rightarrow> point \<Rightarrow> bool"
  lib_distance :: "polygon \<Rightarrow> polygon \<Rightarrow> real"
  lib_point_distance :: "point \<Rightarrow> polygon \<Rightarrow> real"
  lib_walkable_area :: "polygon \<Rightarrow> polygon list \<Rightarrow> real"

subsection \<open>Axis-aligned rectangles\<close>

text \<open>
  The bounds of a vertex list are exact for every geometry: they are the least and the
  greatest coordinates of its vertices.
\<close>

fun minimum :: "real list \<Rightarrow> real" where
  "minimum [] = 0"
| "minimum [a] = a"
| "minimum (a # b # bs) = min a (minimum (b # bs))"

fun maximum :: "real list \<Rightarrow> real" where
  "maximum [] = 0"
| "maximum [a] = a"
| "maximum (a # b # bs) = max a (maximum (b # bs))"

text \<open>\<open>polygon.bounds\<close>: \<open>(minx, miny, maxx, maxy)\<close>.\<close>

definition poly_bounds :: "polygon \<Rightarrow> real \<times> real \<times> real \<times> real" where
  "poly_bounds g =
     (minimum (map fst g), minimum (map snd g), maximum (map fst g), maximum (map snd g))"

definition minx :: "polygon \<Rightarrow> real" where "minx g = fst (poly_bounds g)"
definition miny :: "polygon \<Rightarrow> real" where "miny g = fst (snd (poly_bounds g))"
definition maxx :: "polygon \<Rightarrow> real" where "maxx g = fst (snd (snd (poly_bounds g)))"
definition maxy :: "polygon \<Rightarrow> real" where "maxy g = snd (snd (snd (poly_bounds g)))"

text \<open>
  A vertex list is an axis-aligned rectangle when it has four vertices, the corners of the
  rectangle in the order of its boundary (starting anywhere, in either direction), and
  the rectangle has a positive width and height.  The room polygon of a floor plan with
  bounds and the footprint of an unrotated placement are of this form.  The polygon of
  such a vertex list is the rectangle spanned by its bounds, and for these polygons the
  answers of the library are elementary functions of the bounds.  The functions of this
  subsection describe them; they are the reference for rectangles only, and say nothing
  about the library on any other polygon.
\<close>

definition is_rectangle :: "polygon \<Rightarrow> bool" where
  "is_rectangle g =
     (case g of
        [a, b, c, d] \<Rightarrow>
          minx g < maxx g \<and> miny g < maxy g \<and>
          (snd a = snd b \<and> fst b = fst c \<and> snd c = snd d \<and> fst d = fst a \<or>
           fst a = fst b \<and> snd b = snd c \<and> fst c = fst d \<and> snd d = snd a)
      | _ \<Rightarrow> False)"

text \<open>The points of the rectangle spanned by the bounds, boundary included.\<close>

definition region :: "polygon \<Rightarrow> point set" where
  "region g = {(u, v). minx g \<le> u \<and> u \<le> maxx g \<and> miny g \<le> v \<and> v \<le> maxy g}"

text \<open>The points in the interior of the rectangle.\<close>

definition interior_points :: "polygon \<Rightarrow> point set" where
  "interior_points g = {(u, v). minx g < u \<and> u < maxx g \<and> miny g < v \<and> v < maxy g}"


text \<open>Two rectangles share at least one point.\<close>

definition rect_intersects :: "polygon \<Rightarrow> polygon \<Rightarrow> bool" where
  "rect_intersects a b =
     (minx a \<le> maxx b \<and> minx b \<le> maxx a \<and> miny a \<le> maxy b \<and> miny b \<le> maxy a)"

text \<open>\<open>a.intersection(b).area\<close>\<close>

definition intersection_area :: "polygon \<Rightarrow> polygon \<Rightarrow> real" where
  "intersection_area a b =
     max 0 (min (maxx a) (maxx b) - max (minx a) (minx b)) *
     max 0 (min (maxy a) (maxy b) - max (miny a) (miny b))"

definition rect_area :: "polygon \<Rightarrow> real" where
  "rect_area g = (maxx g - minx g) * (maxy g - miny g)"

text \<open>
  The distance from a point to a rectangle, zero inside the rectangle and on its
  boundary, and the distance between two rectangles.
\<close>

definition rect_point_distance :: "point \<Rightarrow> polygon \<Rightarrow> real" where
  "rect_point_distance p g =
     (let dx = max 0 (max (minx g - fst p) (fst p - maxx g));
          dy = max 0 (max (miny g - snd p) (snd p - maxy g))
      in sqrt (dx\<^sup>2 + dy\<^sup>2))"

definition rect_distance :: "polygon \<Rightarrow> polygon \<Rightarrow> real" where
  "rect_distance a b =
     (let dx = max 0 (max (minx a - maxx b) (minx b - maxx a));
          dy = max 0 (max (miny a - maxy b) (miny b - maxy a))
      in sqrt (dx\<^sup>2 + dy\<^sup>2))"

text \<open>
  \<open>a.contains(b)\<close> for rectangles: no point of \<open>b\<close> lies outside \<open>a\<close>.
  \<open>a.contains(Point(p))\<close>: the point lies in the interior of \<open>a\<close>; a point of the boundary
  is not contained.
\<close>

definition rect_contains :: "polygon \<Rightarrow> polygon \<Rightarrow> bool" where
  "rect_contains a b =
     (minx a \<le> minx b \<and> maxx b \<le> maxx a \<and> miny a \<le> miny b \<and> maxy b \<le> maxy a)"

definition rect_contains_point :: "polygon \<Rightarrow> point \<Rightarrow> bool" where
  "rect_contains_point g p =
     (minx g < fst p \<and> fst p < maxx g \<and> miny g < snd p \<and> snd p < maxy g)"

definition rect_centroid :: "polygon \<Rightarrow> point" where
  "rect_centroid g = ((minx g + maxx g) / 2, (miny g + maxy g) / 2)"

text \<open>
  The area of a rectangle outside a list of rectangles.  The part of the box
  \<open>(x0, y0, x1, y1)\<close> outside the rectangle \<open>g\<close> is cut into four boxes (left of \<open>g\<close>, right
  of it, below and above it), some of which may be flat.
\<close>

type_synonym box = "real \<times> real \<times> real \<times> real"

definition clamp :: "real \<Rightarrow> real \<Rightarrow> real \<Rightarrow> real" where
  "clamp lo hi v = max lo (min hi v)"

definition box_minus :: "polygon \<Rightarrow> box \<Rightarrow> box list" where
  "box_minus g = (\<lambda>(x0, y0, x1, y1).
     (let a = clamp x0 x1 (minx g); b = clamp x0 x1 (maxx g);
          c = clamp y0 y1 (miny g); d = clamp y0 y1 (maxy g)
      in [(x0, y0, a, y1), (b, y0, x1, y1), (a, y0, b, c), (a, d, b, y1)]))"

definition box_area :: "box \<Rightarrow> real" where
  "box_area = (\<lambda>(x0, y0, x1, y1). (x1 - x0) * (y1 - y0))"


definition rect_walkable_area :: "polygon \<Rightarrow> polygon list \<Rightarrow> real" where
  "rect_walkable_area room gs =
     sum_list (map box_area (fold (\<lambda>g boxes. concat (map (box_minus g) boxes)) gs [poly_bounds room]))"

text \<open>The rectangle spanned by the bounds of a list of points.\<close>

definition spanned :: "point list \<Rightarrow> polygon" where
  "spanned ps = [(minx ps, miny ps), (maxx ps, miny ps), (maxx ps, maxy ps), (minx ps, maxy ps)]"

text \<open>
  The library on rectangles, used in the examples.  Its measures and predicates are the
  functions above.  A hull and a buffer are not rectangles in general; here they are
  replaced by the rectangle that encloses them.  The examples have floor plans with
  bounds and without walls, so that no hull and no wall buffer is built, and of the
  buffer of a door only the centroid is read, which is the door point for the buffer and
  for the enclosing square alike.
\<close>

definition rectangle_library :: geometry_library where
  "rectangle_library =
     \<lparr>lib_convex_hull = spanned,
      lib_buffer_line = (\<lambda>a b r. spanned [(fst a - r, snd a - r), (fst a + r, snd a + r),
                                          (fst b - r, snd b - r), (fst b + r, snd b + r)]),
      lib_buffer_point = (\<lambda>p r. spanned [(fst p - r, snd p - r), (fst p + r, snd p + r)]),
      lib_centroid = rect_centroid,
      lib_area = rect_area,
      lib_intersects = rect_intersects,
      lib_intersection_area = intersection_area,
      lib_contains = rect_contains,
      lib_contains_point = rect_contains_point,
      lib_distance = rect_distance,
      lib_point_distance = rect_point_distance,
      lib_walkable_area = rect_walkable_area\<rparr>"



definition contains_interior :: "geometry_library \<Rightarrow> bool" where
  "contains_interior L =
     (\<forall>g p. is_rectangle g \<longrightarrow> (lib_contains_point L g p \<longleftrightarrow> p \<in> interior_points g))"


section \<open>Validate worker\<close>

text \<open>
  A placement dict as the validator reads it: every key is read with
  \<open>.get(key, default)\<close>, so every field is optional.  The layout worker's enriched
  placements carry all keys but \<open>clearances\<close>.
\<close>

record vplacement =
  v_furniture_id :: "string option"
  v_furniture_name :: "string option"
  v_x :: "real option"
  v_y :: "real option"
  v_rotation :: "real option"
  v_dimensions :: "dimensions option"
  v_clearances :: "(string \<times> real) list option"

definition as_vplacement :: "enriched_placement \<Rightarrow> vplacement" where
  "as_vplacement p =
     \<lparr>v_furniture_id = Some (furniture_id p), v_furniture_name = Some (furniture_name p),
      v_x = Some (p_x p), v_y = Some (p_y p), v_rotation = Some (p_rotation p),
      v_dimensions = Some (p_dimensions p), v_clearances = None\<rparr>"

record furniture_geometry =
  g_id :: string
  g_name :: string
  g_geometry :: polygon
  g_placement :: vplacement
  g_clearances :: "(string \<times> real) list"

definition opt_default :: "'a option \<Rightarrow> 'a \<Rightarrow> 'a" where
  "opt_default v d = (case v of None \<Rightarrow> d | Some w \<Rightarrow> w)"

text \<open>
  One iteration of \<open>create_furniture_geometries\<close>: a rectangle centred at the origin,
  rotated by \<open>rotation\<close> degrees when \<open>rotation != 0\<close>, then translated to \<open>(x, y)\<close>.
\<close>

definition create_furniture_geometry :: "vplacement \<Rightarrow> furniture_geometry" where
  "create_furniture_geometry placement =
     (let px = opt_default (v_x placement) 0;
          py = opt_default (v_y placement) 0;
          rot = opt_default (v_rotation placement) 0;
          dims = opt_default (v_dimensions placement) \<lparr>width = 1, depth = 1, height = 0.8\<rparr>;
          half_width = width dims / 2;
          half_depth = depth dims / 2;
          points = [(- half_width, - half_depth), (half_width, - half_depth),
                    (half_width, half_depth), (- half_width, half_depth)];
          rotated_points =
            (if rot \<noteq> 0 then
               (let angle_rad = rot * pi / 180; cos_a = cos angle_rad; sin_a = sin angle_rad
                in map (\<lambda>(qx, qy). (qx * cos_a - qy * sin_a, qx * sin_a + qy * cos_a)) points)
             else points);
          translated_points = map (\<lambda>(qx, qy). (qx + px, qy + py)) rotated_points
      in \<lparr>g_id = opt_default (v_furniture_id placement) ''unknown'',
          g_name = opt_default (v_furniture_name placement) ''Unknown'',
          g_geometry = translated_points,
          g_placement = placement,
          g_clearances = opt_default (v_clearances placement) [(''all'', 0.4)]\<rparr>)"

definition create_furniture_geometries :: "vplacement list \<Rightarrow> furniture_geometry list" where
  "create_furniture_geometries placements = map create_furniture_geometry placements"

subsection \<open>Float operations of the validator\<close>

text \<open>
  The validator computes with binary floats.  The model computes with reals, which is
  exact where Python rounds.  A rounding error can change a result that is discrete: a
  quotient that is truncated to an int, a score that is rounded to decimals, a point that
  is tested for containment, a comparison with zero or with an area.  The float
  operations behind such results are therefore parameters as well: \<open>fl_add\<close>, \<open>fl_sub\<close>,
  \<open>fl_mul\<close> and \<open>fl_div\<close> are the float sum, difference, product and quotient of two floats,
  and \<open>fl_round v d\<close> is \<open>round(x, d)\<close> for the float \<open>x\<close> that the program holds where the
  model holds the real \<open>v\<close>.  The remaining arithmetic of the validator, sums, products
  and quotients whose values are reported or rounded afterwards, is written with the
  exact operations.
\<close>

record float_ops =
  fl_add :: "real \<Rightarrow> real \<Rightarrow> real"
  fl_sub :: "real \<Rightarrow> real \<Rightarrow> real"
  fl_mul :: "real \<Rightarrow> real \<Rightarrow> real"
  fl_div :: "real \<Rightarrow> real \<Rightarrow> real"
  fl_round :: "real \<Rightarrow> nat \<Rightarrow> real"

text \<open>Arithmetic without rounding errors, used in the examples.\<close>

definition exact_ops :: float_ops where
  "exact_ops =
     \<lparr>fl_add = (\<lambda>a b. a + b), fl_sub = (\<lambda>a b. a - b), fl_mul = (\<lambda>a b. a * b),
      fl_div = (\<lambda>a b. a / b), fl_round = py_round\<rparr>"



subsection \<open>Room geometry\<close>

record wall_geometry =
  wg_id :: string
  wg_geometry :: polygon

record door_geometry =
  dg_id :: string
  dg_geometry :: polygon

record room_geometry =
  room_polygon :: polygon
  rg_walls :: "wall_geometry list"
  rg_doors :: "door_geometry list"
  rg_bounds :: "bounds option"

text \<open>
  \<open>parse_room_geometry\<close>.  The room polygon is the rectangle of the bounds when the floor
  plan has bounds; without bounds it is the convex hull of the end points of the walls,
  or a 5 by 4 rectangle when there are no walls either.  A single wall gives two points,
  from which \<open>Polygon(wall_points)\<close> cannot build a ring: it raises.  Every wall is
  buffered by half its thickness and every door point by the door width.  (The source
  also copies the key \<open>swing_direction\<close> of a door, which nothing reads.)
\<close>

definition parse_room_geometry :: "geometry_library \<Rightarrow> floor_plan \<Rightarrow> py_error + room_geometry" where
  "parse_room_geometry L fp =
     (let wall_points = concat (map (\<lambda>w. [wall_start w, wall_end w]) (fp_walls fp));
          wall_geometries =
            map (\<lambda>w. \<lparr>wg_id = wall_id w,
                       wg_geometry = lib_buffer_line L (wall_start w) (wall_end w)
                                       (opt_default (wall_thickness w) 0.15 / 2)\<rparr>)
              (fp_walls fp);
          door_geometries =
            map (\<lambda>d. \<lparr>dg_id = door_id d,
                       dg_geometry = lib_buffer_point L (door_position d)
                                       (opt_default (door_width d) 0.8)\<rparr>)
              (fp_doors fp);
          result = (\<lambda>polygon.
            \<lparr>room_polygon = polygon, rg_walls = wall_geometries, rg_doors = door_geometries,
             rg_bounds = fp_bounds fp\<rparr>)
      in case fp_bounds fp of
           Some b \<Rightarrow>
             Inr (result [(min_x b, min_y b), (max_x b, min_y b), (max_x b, max_y b),
                          (min_x b, max_y b)])
         | None \<Rightarrow>
             if wall_points \<noteq> [] then
               (if length wall_points < 3 then Inl Raised
                else Inr (result (lib_convex_hull L wall_points)))
             else Inr (result [(0, 0), (5, 0), (5, 4), (0, 4)]))"

subsection \<open>Collisions\<close>

record collision_pair =
  furniture_1 :: string
  furniture_2 :: string
  overlap_area :: real
  severity :: string

record collision_results =
  collision_violations :: "string list"
  collision_pairs :: "collision_pair list"
  total_collisions :: nat
  boundary_violations :: nat

text \<open>Python's \<open>sub in s\<close> on strings.\<close>

fun contains_str :: "string \<Rightarrow> string \<Rightarrow> bool" where
  "contains_str sub [] = (sub = [])"
| "contains_str sub (c # cs) = (prefix sub (c # cs) \<or> contains_str sub cs)"

text \<open>The record \<open>check_collisions\<close> appends for a colliding pair.\<close>

definition collision_record ::
  "geometry_library \<Rightarrow> furniture_geometry \<Rightarrow> furniture_geometry \<Rightarrow> collision_pair" where
  "collision_record L furn1 furn2 =
     (let overlap = lib_intersection_area L (g_geometry furn1) (g_geometry furn2)
      in \<lparr>furniture_1 = g_id furn1, furniture_2 = g_id furn2, overlap_area = overlap,
          severity = (if 0.1 < overlap then ''high'' else ''medium'')\<rparr>)"

text \<open>
  \<open>check_collisions\<close>: the loop over the pairs of furniture, which alone fills
  \<open>collision_pairs\<close>, then the loop over the furniture against the room polygon and the loop
  over the furniture against the walls, which add messages only.  No tolerance occurs:
  a pair is recorded when \<open>intersects\<close> is true.
\<close>

definition check_collisions ::
  "geometry_library \<Rightarrow> furniture_geometry list \<Rightarrow> room_geometry \<Rightarrow> collision_results" where
  "check_collisions L furniture_geometries room_geometry =
     (let colliding = filter (\<lambda>(furn1, furn2). lib_intersects L (g_geometry furn1) (g_geometry furn2))
                        (pairs furniture_geometries);
          collision_pairs = map (\<lambda>(furn1, furn2). collision_record L furn1 furn2) colliding;
          collision_messages =
            map (\<lambda>(furn1, furn2). ''Collision between '' @ g_name furn1 @ '' and '' @ g_name furn2)
              colliding;
          room = room_polygon room_geometry;
          boundary_messages =
            concat (map (\<lambda>furniture.
                      if \<not> lib_contains L room (g_geometry furniture) then
                        (if lib_intersects L (g_geometry furniture) room
                         then [g_name furniture @ '' extends outside room boundary'']
                         else [g_name furniture @ '' is completely outside room''])
                      else [])
                    furniture_geometries);
          wall_messages =
            concat (map (\<lambda>furniture.
                      concat (map (\<lambda>wall.
                                if lib_intersects L (g_geometry furniture) (wg_geometry wall)
                                then [g_name furniture @ '' intersects with wall''] else [])
                              (rg_walls room_geometry)))
                    furniture_geometries);
          violations = collision_messages @ boundary_messages @ wall_messages
      in \<lparr>collision_violations = violations,
          collision_pairs = collision_pairs,
          total_collisions = length collision_pairs,
          boundary_violations =
            length (filter (\<lambda>v. contains_str ''boundary'' v \<or> contains_str ''wall'' v) violations)\<rparr>)"



subsection \<open>Clearances\<close>






subsection \<open>Accessibility\<close>

record accessibility_results =
  score :: real
  door_accessibility :: real
  window_accessibility :: real
  flow_efficiency :: real
  blocked_doors :: nat
  blocked_windows :: nat

text \<open>
  The inner loop over the furniture: the opening at \<open>p\<close> is blocked when the library's
  distance from \<open>p\<close> to some furniture geometry is below the limit.
\<close>

definition blocked :: "geometry_library \<Rightarrow> furniture_geometry list \<Rightarrow> point \<Rightarrow> real \<Rightarrow> bool" where
  "blocked L furniture_geometries p limit =
     list_ex (\<lambda>furniture. lib_point_distance L p (g_geometry furniture) < limit) furniture_geometries"


text \<open>The lists \<open>door_access_scores\<close> and \<open>window_access_scores\<close>: 0 for a blocked opening, 1 otherwise.\<close>

definition door_access_scores ::
  "geometry_library \<Rightarrow> furniture_geometry list \<Rightarrow> floor_plan \<Rightarrow> real list" where
  "door_access_scores L furniture_geometries fp =
     map (\<lambda>door. if blocked L furniture_geometries (door_position door) 0.8 then 0 else 1)
       (fp_doors fp)"

definition window_access_scores ::
  "geometry_library \<Rightarrow> furniture_geometry list \<Rightarrow> floor_plan \<Rightarrow> real list" where
  "window_access_scores L furniture_geometries fp =
     map (\<lambda>window. if blocked L furniture_geometries (window_position window) 0.6 then 0 else 1)
       (fp_windows fp)"

text \<open>\<open>np.mean(scores) if scores else 1.0\<close>\<close>

definition mean_or_one :: "real list \<Rightarrow> real" where
  "mean_or_one scores = (if scores \<noteq> [] then sum_list scores / real (length scores) else 1)"

text \<open>
  \<open>analyze_accessibility\<close>.  The division by \<open>room_polygon.area * 0.4\<close> raises
  \<open>ZeroDivisionError\<close> when that float product is zero; the two loops over the doors and
  the windows have run by then, but nothing is returned.
\<close>

definition analyze_accessibility ::
  "geometry_library \<Rightarrow> float_ops \<Rightarrow> furniture_geometry list \<Rightarrow> room_geometry \<Rightarrow> floor_plan \<Rightarrow>
   py_error + accessibility_results" where
  "analyze_accessibility L ar furniture_geometries room_geometry fp =
     (let door_scores = door_access_scores L furniture_geometries fp;
          window_scores = window_access_scores L furniture_geometries fp;
          room = room_polygon room_geometry;
          walkable_area = lib_walkable_area L room (map g_geometry furniture_geometries);
          target = fl_mul ar (lib_area L room) 0.4
      in if target = 0 then Inl ZeroDivisionError
         else
           (let flow = min 1 (walkable_area / target);
                door_score = mean_or_one door_scores;
                window_score = mean_or_one window_scores;
                overall_score = door_score * 0.5 + window_score * 0.3 + flow * 0.2
            in Inr \<lparr>score = fl_round ar overall_score 3,
                    door_accessibility = door_score,
                    window_accessibility = window_score,
                    flow_efficiency = fl_round ar flow 3,
                    blocked_doors = length (filter (\<lambda>s. s = 0) door_scores),
                    blocked_windows = length (filter (\<lambda>s. s = 0) window_scores)\<rparr>))"

subsection \<open>Overall score\<close>



subsection \<open>Navigation heatmap\<close>

text \<open>
  \<open>min_distance\<close> starts at \<open>float('inf')\<close>, here \<open>None\<close>, and is lowered by every
  furniture geometry.
\<close>

definition min_distance :: "geometry_library \<Rightarrow> furniture_geometry list \<Rightarrow> point \<Rightarrow> real option" where
  "min_distance L furniture_geometries p =
     fold (\<lambda>furniture m.
             (let d = lib_point_distance L p (g_geometry furniture)
              in case m of None \<Rightarrow> Some d | Some v \<Rightarrow> Some (min v d)))
       furniture_geometries None"

definition heat_cell ::
  "geometry_library \<Rightarrow> furniture_geometry list \<Rightarrow> polygon \<Rightarrow> point \<Rightarrow> real" where
  "heat_cell L furniture_geometries room p =
     (if \<not> lib_contains_point L room p then - 1
      else case min_distance L furniture_geometries p of
             None \<Rightarrow> 1
           | Some d \<Rightarrow> if d < 0.3 then 0 else if 1.5 < d then 1 else (d - 0.3) / 1.2)"

record heatmap =
  grid :: "real list list"
  hm_bounds :: "real \<times> real \<times> real \<times> real"
  resolution :: real
  hm_width :: int
  hm_height :: int

text \<open>
  The point sampled for the cell in row \<open>i\<close> and column \<open>j\<close>:
  \<open>(bounds[0] + j * grid_resolution, bounds[1] + i * grid_resolution)\<close>, the corner of the
  cell nearest to the origin of the grid.
\<close>

definition cell_point :: "float_ops \<Rightarrow> polygon \<Rightarrow> nat \<Rightarrow> nat \<Rightarrow> point" where
  "cell_point ar room i j =
     (fl_add ar (minx room) (fl_mul ar (real j) 0.2), fl_add ar (miny room) (fl_mul ar (real i) 0.2))"

text \<open>
  \<open>generate_navigation_heatmap\<close>.  The grid has \<open>int(width / 0.2) + 1\<close> columns and
  \<open>int(height / 0.2) + 1\<close> rows, with the float quotients truncated.
\<close>

definition generate_navigation_heatmap ::
  "geometry_library \<Rightarrow> float_ops \<Rightarrow> furniture_geometry list \<Rightarrow> room_geometry \<Rightarrow> heatmap" where
  "generate_navigation_heatmap L ar furniture_geometries room_geometry =
     (let room = room_polygon room_geometry;
          grid_resolution = 0.2;
          w = fl_sub ar (maxx room) (minx room);
          h = fl_sub ar (maxy room) (miny room);
          grid_width = py_int (fl_div ar w grid_resolution) + 1;
          grid_height = py_int (fl_div ar h grid_resolution) + 1
      in \<lparr>grid = map (\<lambda>i. map (\<lambda>j. heat_cell L furniture_geometries room (cell_point ar room i j))
                           [0..<nat grid_width])
                  [0..<nat grid_height],
          hm_bounds = poly_bounds room,
          resolution = grid_resolution,
          hm_width = grid_width,
          hm_height = grid_height\<rparr>)"

section \<open>Inputs used in examples\<close>

definition plain_floor_plan :: floor_plan where
  "plain_floor_plan =
     \<lparr>fp_area_sqm = None, fp_bounds = None, fp_walls = [], fp_doors = [], fp_windows = []\<rparr>"

definition plain_job :: "int option \<Rightarrow> job" where
  "plain_job budget =
     \<lparr>job_id = ''job'', room_id = ''room'', job_floor_plan = plain_floor_plan,
      job_constraints = [], job_style_prefs = [], job_budget_cents = budget\<rparr>"

section \<open>Footprints of a layout's placements\<close>

text \<open>
  The footprint the validator builds for a placement of a layout: the layout worker's
  result is the validator's input, and the validator reads \<open>(x, y)\<close> as the centre of the
  rectangle.
\<close>

definition footprint :: "enriched_placement \<Rightarrow> polygon" where
  "footprint p = g_geometry (create_furniture_geometry (as_vplacement p))"

text \<open>
  The footprint under the reading of the specification's data model: \<open>(x, y)\<close> is the
  lower-left corner of the rotated axis-aligned bounding box, whose sides are the width
  and depth, swapped at 90 and 270 degrees.
\<close>

definition corner_footprint :: "enriched_placement \<Rightarrow> polygon" where
  "corner_footprint p =
     (let w = (if p_rotation p = 90 \<or> p_rotation p = 270 then depth (p_dimensions p)
               else width (p_dimensions p));
          d = (if p_rotation p = 90 \<or> p_rotation p = 270 then width (p_dimensions p)
               else depth (p_dimensions p))
      in [(p_x p, p_y p), (p_x p + w, p_y p), (p_x p + w, p_y p + d), (p_x p, p_y p + d)])"

definition disjoint_footprints :: "enriched_placement \<Rightarrow> enriched_placement \<Rightarrow> bool" where
  "disjoint_footprints p q =
     (intersection_area (footprint p) (footprint q) = 0 \<and>
      intersection_area (corner_footprint p) (corner_footprint q) = 0)"

text \<open>The enriched placement that post-processing builds for a catalog item placed at a pose.\<close>

definition enriched_of :: "furniture \<Rightarrow> real \<Rightarrow> real \<Rightarrow> real \<Rightarrow> string \<Rightarrow> enriched_placement" where
  "enriched_of f px py rot anchor =
     \<lparr>furniture_id = f_id f, p_x = px, p_y = py, p_rotation = rot, anchor_type = anchor,
      furniture_name = f_name f, p_dimensions = f_dimensions f, price_cents = f_price_cents f\<rparr>"

text \<open>The catalog and the solutions of a job.\<close>

definition job_catalog :: "job \<Rightarrow> furniture list" where
  "job_catalog job_data =
     generate_furniture_catalog (job_floor_plan job_data) (job_style_prefs job_data)
       (job_budget_cents job_data)"

definition job_model :: "job \<Rightarrow> constraint_model" where
  "job_model job_data =
     build_constraint_model (fp_bounds (job_floor_plan job_data)) (fp_walls (job_floor_plan job_data))
       (fp_doors (job_floor_plan job_data)) (fp_windows (job_floor_plan job_data))
       (job_catalog job_data) (job_constraints job_data)"

section \<open>Validator inputs used in examples\<close>

text \<open>
  The coordinates of the examples are small multiples of 0.5, which floats hold and add
  without rounding.
\<close>

text \<open>A placement with default dimensions, a square of side 1 centred at the given point.\<close>

definition unit_square_at :: "string \<Rightarrow> real \<Rightarrow> real \<Rightarrow> vplacement" where
  "unit_square_at name px py =
     \<lparr>v_furniture_id = Some name, v_furniture_name = Some name, v_x = Some px, v_y = Some py,
      v_rotation = None, v_dimensions = None, v_clearances = None\<rparr>"

text \<open>A piece 2 m wide and 1 m deep centred at \<open>(1.5, 0)\<close>.\<close>

definition long_piece :: vplacement where
  "long_piece =
     \<lparr>v_furniture_id = Some ''sofa'', v_furniture_name = Some ''Sofa'', v_x = Some 1.5, v_y = Some 0,
      v_rotation = Some 0, v_dimensions = Some \<lparr>width = 2, depth = 1, height = 0.8\<rparr>,
      v_clearances = None\<rparr>"



text \<open>A 5 m by 4 m room with the given doors and windows.\<close>

definition room_with :: "door list \<Rightarrow> window list \<Rightarrow> floor_plan" where
  "room_with ds ws =
     \<lparr>fp_area_sqm = Some 20, fp_bounds = Some \<lparr>min_x = 0, min_y = 0, max_x = 5, max_y = 4\<rparr>,
      fp_walls = [], fp_doors = ds, fp_windows = ws\<rparr>"

text \<open>Two unit squares that overlap, and a room with three doors, one of them near the squares.\<close>

definition two_squares :: "furniture_geometry list" where
  "two_squares = create_furniture_geometries [unit_square_at ''a'' 1 1, unit_square_at ''b'' 1.5 1]"



text \<open>The room geometry of a 5 m by 4 m floor plan without walls and doors.\<close>

definition room_5x4 :: room_geometry where
  "room_5x4 =
     \<lparr>room_polygon = [(0, 0), (5, 0), (5, 4), (0, 4)], rg_walls = [], rg_doors = [],
      rg_bounds = Some \<lparr>min_x = 0, min_y = 0, max_x = 5, max_y = 4\<rparr>\<rparr>"

text \<open>Two unit squares that share an edge.\<close>

definition touching_squares :: "furniture_geometry list" where
  "touching_squares = create_furniture_geometries [unit_square_at ''a'' 1 1, unit_square_at ''b'' 2 1]"

text \<open>A floor plan whose bounds have no width, without doors and windows.\<close>

definition flat_room :: floor_plan where
  "flat_room =
     \<lparr>fp_area_sqm = None, fp_bounds = Some \<lparr>min_x = 0, min_y = 0, max_x = 0, max_y = 4\<rparr>,
      fp_walls = [], fp_doors = [], fp_windows = []\<rparr>"

section \<open>Constraint solver\<close>

record furniture_item =
  fi_id :: string
  fi_name :: string
  width_cm :: int
  depth_cm :: int
  height_cm :: int
  fi_category :: string
  fi_clearances :: "(string \<times> int) list"
  fi_placement_rules :: "string list"
  fi_priority :: int
  fi_price_cents :: int

record room_constraints =
  rc_bounds :: bounds
  rc_walls :: "wall list"
  rc_doors :: "door list"
  rc_windows :: "window list"
  min_walkway_cm :: int
  min_door_clearance_cm :: int
  min_window_access_cm :: int

record placement_solution =
  ps_furniture_id :: string
  x_cm :: int
  y_cm :: int
  rotation_deg :: int
  confidence :: real

text \<open>
  \<open>solve_layout\<close> builds a CP-SAT model through the calls of an external library
  (OR-Tools), has the library solve it, and reads the placements off the solution.  The
  embedding follows the control flow of the source and keeps, of every call that posts a
  constraint, the list handed to \<open>OnlyEnforceIf\<close>, because that list decides whether the
  call returns.  The variables are named as the source names them: \<open>{id}_x\<close>, \<open>{id}_y\<close>,
  \<open>{id}_rot\<close>, \<open>{id}_placed\<close>.

  An element of such a list is a Boolean variable, or a comparison \<open>rot_var == k\<close> of an
  integer variable with a constant, which the library builds as a bounded linear
  expression.  \<open>OnlyEnforceIf\<close> accepts literals only: it reads the index of each element,
  which a bounded linear expression does not have, and so raises.
\<close>

datatype enforcement = BoolVar string | LinearEq string int

fun is_literal :: "enforcement \<Rightarrow> bool" where
  "is_literal (BoolVar v) = True"
| "is_literal (LinearEq v k) = False"

definition only_enforce_if :: "enforcement list \<Rightarrow> py_error + unit" where
  "only_enforce_if literals = (if list_all is_literal literals then Inr () else Inl Raised)"

text \<open>One statement after another, and a \<open>for\<close> loop: the first exception ends both.\<close>

definition then_do :: "py_error + unit \<Rightarrow> py_error + 'a \<Rightarrow> py_error + 'a" where
  "then_do first rest = (case first of Inl e \<Rightarrow> Inl e | Inr u \<Rightarrow> rest)"

fun for_each :: "('a \<Rightarrow> py_error + unit) \<Rightarrow> 'a list \<Rightarrow> py_error + unit" where
  "for_each body [] = Inr ()"
| "for_each body (x # xs) = then_do (body x) (for_each body xs)"

definition placed_var :: "furniture_item \<Rightarrow> enforcement" where
  "placed_var item = BoolVar (fi_id item @ ''_placed'')"

definition rot_is :: "furniture_item \<Rightarrow> int \<Rightarrow> enforcement" where
  "rot_is item k = LinearEq (fi_id item @ ''_rot'') k"

text \<open>
  \<open>_add_boundary_constraints\<close>: eight constraints for every item, each enforced under
  \<open>[placed_var, rot_var == k]\<close>.
\<close>

definition add_boundary_constraints :: "furniture_item list \<Rightarrow> py_error + unit" where
  "add_boundary_constraints furniture_items =
     for_each (\<lambda>item.
        then_do (only_enforce_if [placed_var item, rot_is item 0])
       (then_do (only_enforce_if [placed_var item, rot_is item 2])
       (then_do (only_enforce_if [placed_var item, rot_is item 0])
       (then_do (only_enforce_if [placed_var item, rot_is item 2])
       (then_do (only_enforce_if [placed_var item, rot_is item 1])
       (then_do (only_enforce_if [placed_var item, rot_is item 3])
       (then_do (only_enforce_if [placed_var item, rot_is item 1])
                (only_enforce_if [placed_var item, rot_is item 3]))))))))
       furniture_items"

text \<open>
  \<open>_add_collision_constraints\<close>: for every pair of items and every pair of rotations, a
  disjunction of four fresh Booleans enforced under
  \<open>[placed1, placed2, rot1 == r1, rot2 == r2]\<close>, and one constraint under each of the four.
\<close>

definition rotation_pairs :: "(int \<times> int) list" where
  "rotation_pairs = concat (map (\<lambda>r1. map (Pair r1) [0, 1, 2, 3]) [0, 1, 2, 3])"

definition add_collision_constraints :: "furniture_item list \<Rightarrow> py_error + unit" where
  "add_collision_constraints furniture_items =
     for_each (\<lambda>(item1, item2).
        for_each (\<lambda>(r1, r2).
           then_do (only_enforce_if [placed_var item1, placed_var item2, rot_is item1 r1, rot_is item2 r2])
          (then_do (only_enforce_if [BoolVar ''b1''])
          (then_do (only_enforce_if [BoolVar ''b2''])
          (then_do (only_enforce_if [BoolVar ''b3''])
                   (only_enforce_if [BoolVar ''b4''])))))
          rotation_pairs)
       (pairs furniture_items)"

text \<open>
  \<open>_add_clearance_constraints\<close>, \<open>_add_door_constraints\<close> and \<open>_add_window_constraints\<close>
  enforce their constraints under placed flags only.
\<close>

definition add_clearance_constraints :: "furniture_item list \<Rightarrow> py_error + unit" where
  "add_clearance_constraints furniture_items =
     for_each (\<lambda>(item1, item2). only_enforce_if [placed_var item1, placed_var item2])
       (pairs furniture_items)"

definition add_door_constraints :: "furniture_item list \<Rightarrow> room_constraints \<Rightarrow> py_error + unit" where
  "add_door_constraints furniture_items room =
     for_each (\<lambda>door. for_each (\<lambda>item. only_enforce_if [placed_var item]) furniture_items)
       (rc_doors room)"

definition add_window_constraints :: "furniture_item list \<Rightarrow> room_constraints \<Rightarrow> py_error + unit" where
  "add_window_constraints furniture_items room =
     for_each (\<lambda>window.
        for_each (\<lambda>item. if 100 < height_cm item then only_enforce_if [placed_var item] else Inr ())
          furniture_items)
       (rc_windows room)"

text \<open>\<open>sub in name.lower()\<close>, on ASCII names.\<close>

definition lower_char :: "char \<Rightarrow> char" where
  "lower_char c =
     (case map_of (zip ''ABCDEFGHIJKLMNOPQRSTUVWXYZ'' ''abcdefghijklmnopqrstuvwxyz'') c of
        None \<Rightarrow> c | Some l \<Rightarrow> l)"

definition name_has :: "string \<Rightarrow> furniture_item \<Rightarrow> bool" where
  "name_has sub item = contains_str sub (map lower_char (fi_name item))"

text \<open>
  \<open>_add_functional_constraints\<close>: the sofa and coffee table pairs post nothing; every desk
  and chair pair and every TV stand and sofa pair posts two constraints under the two
  placed flags.
\<close>

definition add_functional_constraints :: "furniture_item list \<Rightarrow> py_error + unit" where
  "add_functional_constraints furniture_items =
     (let sofas = filter (name_has ''sofa'') furniture_items;
          desks = filter (name_has ''desk'') furniture_items;
          chairs = filter (name_has ''chair'') furniture_items;
          tv_stands = filter (name_has ''tv'') furniture_items;
          two = (\<lambda>item1 item2.
                   then_do (only_enforce_if [placed_var item1, placed_var item2])
                           (only_enforce_if [placed_var item1, placed_var item2]))
      in then_do (for_each (\<lambda>desk. for_each (\<lambda>chair. two desk chair) chairs) desks)
                 (for_each (\<lambda>tv. for_each (\<lambda>sofa. two tv sofa) sofas) tv_stands))"

text \<open>
  \<open>_add_objectives\<close>.  The coverage and budget terms are linear in the placed flags.  The
  flow term multiplies two variables, \<open>center_dist * placed_var\<close>, which the library
  refuses: with a positive \<open>flow_optimization\<close> the loop raises at its first item.
\<close>

definition add_objectives :: "furniture_item list \<Rightarrow> (string \<times> real) list \<Rightarrow> py_error + unit" where
  "add_objectives furniture_items objectives =
     (if 0 < get_default objectives ''flow_optimization'' 0
      then for_each (\<lambda>item. Inl Raised) furniture_items
      else Inr ())"

text \<open>
  What the library answers for the model that was built: a status, and a value for every
  variable.  The answer is the library's, so it is a parameter of \<open>solve_layout\<close>.
\<close>

datatype solver_status = UNKNOWN | MODEL_INVALID | FEASIBLE | INFEASIBLE | OPTIMAL

record cp_outcome =
  cp_status :: solver_status
  cp_value :: "string \<Rightarrow> int"

text \<open>\<open>_extract_solution\<close>: the items whose placed flag is set, in the order of the items.\<close>

definition extract_solution :: "furniture_item list \<Rightarrow> cp_outcome \<Rightarrow> placement_solution list" where
  "extract_solution furniture_items outcome =
     map (\<lambda>item.
            \<lparr>ps_furniture_id = fi_id item,
             x_cm = cp_value outcome (fi_id item @ ''_x'') * 2,
             y_cm = cp_value outcome (fi_id item @ ''_y'') * 2,
             rotation_deg = cp_value outcome (fi_id item @ ''_rot'') * 90,
             confidence = 0.9\<rparr>)
       (filter (\<lambda>item. cp_value outcome (fi_id item @ ''_placed'') \<noteq> 0) furniture_items)"

definition solve_layout ::
  "cp_outcome \<Rightarrow> furniture_item list \<Rightarrow> room_constraints \<Rightarrow> (string \<times> real) list \<Rightarrow>
   py_error + placement_solution list" where
  "solve_layout outcome furniture_items room objectives =
     then_do (add_boundary_constraints furniture_items)
    (then_do (add_collision_constraints furniture_items)
    (then_do (add_clearance_constraints furniture_items)
    (then_do (add_door_constraints furniture_items room)
    (then_do (add_window_constraints furniture_items room)
    (then_do (add_functional_constraints furniture_items)
    (then_do (add_objectives furniture_items objectives)
       (if cp_status outcome = OPTIMAL \<or> cp_status outcome = FEASIBLE
        then Inr (extract_solution furniture_items outcome)
        else Inr [])))))))"

subsection \<open>Two cabinets for a room of 2 m by 1 m\<close>




section \<open>Properties of the catalog filter\<close>

lemmas item_defs = sofa_3seat_def armchair_def coffee_table_def side_table_def tv_stand_def
  bookshelf_def desk_def office_chair_def mk_furniture_def

lemma catalog_subseq: "subseq (generate_furniture_catalog fp style_prefs budget_cents) base_catalog"
  unfolding generate_furniture_catalog_def Let_def
  by (auto split: option.splits intro: subseq_order.trans[OF subseq_filter_left])

text \<open>
  C8 as stated fails: with no style preferences, no budget and the default area the
  filter returns the base catalog, whose priorities 1, 2, 2, 3, 2, 3, 2, 2 are not
  ascending.
\<close>

theorem catalog_not_sorted_by_priority:
  "\<not> sorted (map f_priority (generate_furniture_catalog plain_floor_plan [] None))"
  by (simp add: generate_furniture_catalog_def plain_floor_plan_def base_catalog_def item_defs)

text \<open>
  C8, amended: the catalog filter only drops items; its output is a sub-list of the base
  catalog in the base catalog's order, so the items kept stay in their input order.  No
  sorting by priority takes place.
\<close>

theorem catalog_keeps_input_order:
  "subseq (generate_furniture_catalog fp style_prefs budget_cents) base_catalog"
  by (rule catalog_subseq)

theorem catalog_keeps_input_order_witness:
  "subseq (generate_furniture_catalog plain_floor_plan [''ergonomic''] (Some 100000)) base_catalog
   \<and> generate_furniture_catalog plain_floor_plan [''ergonomic''] (Some 100000) = [office_chair]"
  using catalog_keeps_input_order [of plain_floor_plan "[''ergonomic'']" "Some 100000"]
  by (simp add: generate_furniture_catalog_def plain_floor_plan_def base_catalog_def item_defs
      style_match_def within_budget_def)

section \<open>Properties of the progress stream\<close>

text \<open>
  C9: within one job the progress values written to the stream are non-decreasing,
  whether the job completes or fails at any point: the records the job appends to the
  stream carry a sorted sequence of progress values.
\<close>

theorem progress_monotone:
  "\<exists>new. snd (generate_layouts redis_client raises job_data stream0) = stream0 @ new
         \<and> sorted (map pr_progress new)"
proof (cases redis_client)
  case True
  then show ?thesis
    unfolding generate_layouts_def update_job_progress_def
    by (simp add: Let_def split: sum.splits)
next
  case False
  then show ?thesis
    unfolding generate_layouts_def update_job_progress_def
    by (simp add: Let_def split: sum.splits)
qed

section \<open>Properties of the generated layouts\<close>

lemma subseq_set: "subseq xs ys \<Longrightarrow> set xs \<subseteq> set ys"
  by (auto elim: list_emb_set)

lemma base_ids_distinct: "distinct (map f_id base_catalog)"
  by (simp add: base_catalog_def item_defs)

lemma find_item_subseq:
  assumes "subseq cat base_catalog" and "f \<in> set base_catalog"
  shows "find_item cat (f_id f) = (if f \<in> set cat then Some f else None)"
proof -
  have inj: "inj_on f_id (set base_catalog)"
    using base_ids_distinct by (simp add: distinct_map)
  have sub: "set cat \<subseteq> set base_catalog"
    using assms(1) by (rule subseq_set)
  have same: "g = f" if "g \<in> set cat" "f_id g = f_id f" for g
    using that sub assms(2) inj by (auto dest: inj_onD)
  show ?thesis
  proof (cases "f \<in> set cat")
    case True
    then obtain g where g: "find_item cat (f_id f) = Some g"
      unfolding find_item_def by (cases "List.find (\<lambda>h. f_id h = f_id f) cat") (auto simp: find_None_iff)
    then have "g \<in> set cat \<and> f_id g = f_id f"
      unfolding find_item_def by (auto simp: find_Some_iff)
    with same have "g = f" by blast
    with g True show ?thesis by simp
  next
    case False
    then have "find_item cat (f_id f) = None"
      unfolding find_item_def using same by (auto simp: find_None_iff)
    with False show ?thesis by simp
  qed
qed

lemma enrich_place:
  assumes "subseq cat base_catalog" and "f \<in> set base_catalog"
  shows "concat (map (enrich cat) (place (find_item cat (f_id f)) px py rot a))
         = (if f \<in> set cat then [enriched_of f px py rot a] else [])"
  by (simp add: find_item_subseq[OF assms] place_def enrich_def enriched_of_def)

lemma sorted_wrt_opt3:
  "P e1 e2 \<Longrightarrow> P e1 e3 \<Longrightarrow> P e2 e3 \<Longrightarrow>
   sorted_wrt P ((if a then [e1] else []) @ (if b then [e2] else []) @ (if c then [e3] else []))"
  by auto

lemma trig270: "cos (3 * pi / 2) = 0" "sin (3 * pi / 2) = - 1"
  using cos_3over2_pi sin_3over2_pi by (simp_all add: field_simps)

lemmas geom_defs = footprint_def corner_footprint_def disjoint_footprints_def
  create_furniture_geometry_def as_vplacement_def opt_default_def intersection_area_def
  minx_def miny_def maxx_def maxy_def poly_bounds_def Let_def trig270 enriched_of_def

lemma conversation_disjoint:
  "disjoint_footprints (enriched_of sofa_3seat 1 0.5 0 a1) (enriched_of coffee_table 1 1.8 0 a2)"
  "disjoint_footprints (enriched_of sofa_3seat 1 0.5 0 a1) (enriched_of armchair 3.5 1 270 a3)"
  "disjoint_footprints (enriched_of coffee_table 1 1.8 0 a2) (enriched_of armchair 3.5 1 270 a3)"
  by (simp_all add: item_defs geom_defs)

lemma work_disjoint:
  "disjoint_footprints (enriched_of desk 4 1 90 a1) (enriched_of office_chair 3.2 1 90 a2)"
  "disjoint_footprints (enriched_of desk 4 1 90 a1) (enriched_of sofa_3seat 1 2.5 0 a3)"
  "disjoint_footprints (enriched_of office_chair 3.2 1 90 a2) (enriched_of sofa_3seat 1 2.5 0 a3)"
  by (simp_all add: item_defs geom_defs)

lemma entertainment_disjoint:
  "disjoint_footprints (enriched_of tv_stand 2.5 0.2 0 a1) (enriched_of sofa_3seat 2.5 2.8 180 a2)"
  "disjoint_footprints (enriched_of tv_stand 2.5 0.2 0 a1) (enriched_of side_table 1 2.8 0 a3)"
  "disjoint_footprints (enriched_of sofa_3seat 2.5 2.8 180 a2) (enriched_of side_table 1 2.8 0 a3)"
  by (simp_all add: item_defs geom_defs)

lemma item_ids:
  "''sofa_3seat'' = f_id sofa_3seat" "''coffee_table'' = f_id coffee_table"
  "''armchair'' = f_id armchair" "''desk'' = f_id desk" "''office_chair'' = f_id office_chair"
  "''tv_stand'' = f_id tv_stand" "''side_table'' = f_id side_table"
  by (simp_all add: item_defs)

lemma in_base:
  "sofa_3seat \<in> set base_catalog" "coffee_table \<in> set base_catalog"
  "armchair \<in> set base_catalog" "desk \<in> set base_catalog" "office_chair \<in> set base_catalog"
  "tv_stand \<in> set base_catalog" "side_table \<in> set base_catalog"
  by (simp_all add: base_catalog_def)

lemma conversation_placements:
  "s_placements (generate_layout_solution model ''conversation_focused'' nm) =
     place (find_item (cm_furniture_catalog model) (f_id sofa_3seat)) 1 0.5 0 ''wall_aligned'' @
     place (find_item (cm_furniture_catalog model) (f_id coffee_table)) 1 1.8 0 ''sofa_front'' @
     place (find_item (cm_furniture_catalog model) (f_id armchair)) 3.5 1 270 ''conversation_angle''"
  by (simp add: generate_layout_solution_def item_defs Let_def)

lemma work_placements:
  "s_placements (generate_layout_solution model ''work_focused'' nm) =
     place (find_item (cm_furniture_catalog model) (f_id desk)) 4 1 90 ''window_adjacent'' @
     place (find_item (cm_furniture_catalog model) (f_id office_chair)) 3.2 1 90 ''desk_pair'' @
     place (find_item (cm_furniture_catalog model) (f_id sofa_3seat)) 1 2.5 0 ''wall_aligned''"
  by (simp add: generate_layout_solution_def item_defs Let_def)

lemma entertainment_placements:
  "s_placements (generate_layout_solution model ''entertainment_focused'' nm) =
     place (find_item (cm_furniture_catalog model) (f_id tv_stand)) 2.5 0.2 0 ''wall_centered'' @
     place (find_item (cm_furniture_catalog model) (f_id sofa_3seat)) 2.5 2.8 180 ''tv_viewing'' @
     place (find_item (cm_furniture_catalog model) (f_id side_table)) 1 2.8 0 ''sofa_side''"
  by (simp add: generate_layout_solution_def item_defs Let_def)

lemma strategy_disjoint:
  assumes "subseq (cm_furniture_catalog model) base_catalog"
  shows "sorted_wrt disjoint_footprints
           (concat (map (enrich (cm_furniture_catalog model))
              (s_placements (generate_layout_solution model ''conversation_focused'' nm))))"
    and "sorted_wrt disjoint_footprints
           (concat (map (enrich (cm_furniture_catalog model))
              (s_placements (generate_layout_solution model ''work_focused'' nm))))"
    and "sorted_wrt disjoint_footprints
           (concat (map (enrich (cm_furniture_catalog model))
              (s_placements (generate_layout_solution model ''entertainment_focused'' nm))))"
proof -
  note ep = enrich_place[OF assms]
  show "sorted_wrt disjoint_footprints
           (concat (map (enrich (cm_furniture_catalog model))
              (s_placements (generate_layout_solution model ''conversation_focused'' nm))))"
    unfolding conversation_placements map_append concat_append
      ep[OF in_base(1)] ep[OF in_base(2)] ep[OF in_base(3)]
    by (rule sorted_wrt_opt3) (rule conversation_disjoint)+
  show "sorted_wrt disjoint_footprints
           (concat (map (enrich (cm_furniture_catalog model))
              (s_placements (generate_layout_solution model ''work_focused'' nm))))"
    unfolding work_placements map_append concat_append
      ep[OF in_base(4)] ep[OF in_base(5)] ep[OF in_base(1)]
    by (rule sorted_wrt_opt3) (rule work_disjoint)+
  show "sorted_wrt disjoint_footprints
           (concat (map (enrich (cm_furniture_catalog model))
              (s_placements (generate_layout_solution model ''entertainment_focused'' nm))))"
    unfolding entertainment_placements map_append concat_append
      ep[OF in_base(6)] ep[OF in_base(1)] ep[OF in_base(7)]
    by (rule sorted_wrt_opt3) (rule entertainment_disjoint)+
qed

lemma variant_disjoint:
  assumes "subseq (cm_furniture_catalog model) base_catalog"
  shows "sorted_wrt disjoint_footprints
           (concat (map (enrich (cm_furniture_catalog model)) (s_placements (variant_solution model k))))"
  unfolding variant_solution_def
  by (simp only: strategy_disjoint[OF assms] split: if_split) simp

lemma post_process_all_placements:
  "post_process_all jid cat fp i sols = Inr ls \<Longrightarrow>
   map l_placements ls = map (\<lambda>sol. concat (map (enrich cat) (s_placements sol))) sols"
proof (induction sols arbitrary: i ls)
  case Nil
  then show ?case by simp
next
  case (Cons sol sols)
  then show ?case
    by (auto simp: post_process_layout_def Let_def split: sum.splits)
qed

lemma post_process_all_returns:
  "fp_area_sqm fp \<noteq> Some 0 \<Longrightarrow> \<exists>ls. post_process_all jid cat fp i sols = Inr ls"
proof (induction sols arbitrary: i)
  case Nil
  then show ?case by simp
next
  case (Cons sol sols)
  have "\<exists>l. post_process_layout sol cat fp (jid @ ''_layout_'' @ string_of_nat (i + 1)) = Inr l"
    using Cons.prems
    by (auto simp: post_process_layout_def calculate_coverage_ratio_def Let_def split: option.splits)
  with Cons.IH[OF Cons.prems, of "i + 1"] show ?case
    by auto
qed

lemma job_model_catalog: "cm_furniture_catalog (job_model job_data) = job_catalog job_data"
  by (simp add: job_model_def build_constraint_model_def Let_def)

lemma completed_layouts:
  assumes "r_status (fst (generate_layouts redis_client raises job_data stream0)) = completed"
  shows "\<exists>ls. r_layouts (fst (generate_layouts redis_client raises job_data stream0)) = Some ls \<and>
              post_process_all (job_id job_data) (job_catalog job_data) (job_floor_plan job_data) 0
                (solve_layout_variants (job_model job_data) 3) = Inr ls"
  using assms unfolding generate_layouts_def job_model_def job_catalog_def
  by (simp add: Let_def split: sum.splits if_splits)

lemma generate_layouts_completes:
  assumes "fp_area_sqm (job_floor_plan job_data) \<noteq> Some 0" and "\<And>k. \<not> raises k"
  shows "r_status (fst (generate_layouts redis_client raises job_data stream0)) = completed"
proof -
  obtain ls where "post_process_all (job_id job_data) (job_catalog job_data) (job_floor_plan job_data) 0
                (solve_layout_variants (job_model job_data) 3) = Inr ls"
    using post_process_all_returns[OF assms(1)] by blast
  then show ?thesis
    unfolding generate_layouts_def job_model_def job_catalog_def
    by (simp add: Let_def assms(2))
qed

lemma layout_placements_variant:
  assumes "post_process_all jid (cm_furniture_catalog model) fp i (solve_layout_variants model 3) = Inr ls"
    and "l \<in> set ls"
  shows "\<exists>k. l_placements l =
           concat (map (enrich (cm_furniture_catalog model)) (s_placements (variant_solution model k)))"
proof -
  have "l_placements l \<in> set (map l_placements ls)"
    using assms(2) by simp
  then show ?thesis
    unfolding post_process_all_placements[OF assms(1)] solve_layout_variants_def
    by auto
qed

text \<open>
  C2: in every layout of a job that completes, any two placements have footprints whose
  intersection has area 0.  This holds for the footprint the validator builds from the
  placement (position read as the centre) and for the footprint with the position read
  as the lower-left corner.
\<close>

theorem layouts_never_overlap:
  assumes "r_status (fst (generate_layouts redis_client raises job_data stream0)) = completed"
  shows "\<exists>ls. r_layouts (fst (generate_layouts redis_client raises job_data stream0)) = Some ls \<and>
           (\<forall>l i j. l \<in> set ls \<and> i < j \<and> j < length (l_placements l) \<longrightarrow>
              intersection_area (footprint (l_placements l ! i)) (footprint (l_placements l ! j)) = 0 \<and>
              intersection_area (corner_footprint (l_placements l ! i))
                (corner_footprint (l_placements l ! j)) = 0)"
proof -
  obtain ls where ls: "r_layouts (fst (generate_layouts redis_client raises job_data stream0)) = Some ls"
    and pp: "post_process_all (job_id job_data) (job_catalog job_data) (job_floor_plan job_data) 0
                (solve_layout_variants (job_model job_data) 3) = Inr ls"
    using completed_layouts[OF assms] by blast
  have pp': "post_process_all (job_id job_data) (cm_furniture_catalog (job_model job_data))
                (job_floor_plan job_data) 0 (solve_layout_variants (job_model job_data) 3) = Inr ls"
    using pp by (simp only: job_model_catalog)
  have sub: "subseq (cm_furniture_catalog (job_model job_data)) base_catalog"
    unfolding job_model_catalog job_catalog_def by (rule catalog_subseq)
  have "intersection_area (footprint (l_placements l ! i)) (footprint (l_placements l ! j)) = 0 \<and>
        intersection_area (corner_footprint (l_placements l ! i))
          (corner_footprint (l_placements l ! j)) = 0"
    if l_in: "l \<in> set ls" and ij: "i < j" "j < length (l_placements l)" for l i j
  proof -
    obtain k where "l_placements l =
        concat (map (enrich (cm_furniture_catalog (job_model job_data)))
          (s_placements (variant_solution (job_model job_data) k)))"
      using layout_placements_variant[OF pp' l_in] by blast
    then have "sorted_wrt disjoint_footprints (l_placements l)"
      using variant_disjoint[OF sub, of k] by simp
    then have "disjoint_footprints (l_placements l ! i) (l_placements l ! j)"
      using ij by (simp add: sorted_wrt_iff_nth_less)
    then show ?thesis
      by (simp add: disjoint_footprints_def)
  qed
  with ls show ?thesis by blast
qed

lemma plain_area: "fp_area_sqm (job_floor_plan (plain_job b)) \<noteq> Some 0"
  by (simp add: plain_job_def plain_floor_plan_def)

theorem layouts_never_overlap_witness:
  "r_status (fst (generate_layouts True (\<lambda>k. False) (plain_job None) [])) = completed \<and>
   (\<exists>ls. r_layouts (fst (generate_layouts True (\<lambda>k. False) (plain_job None) [])) = Some ls \<and>
           (\<forall>l i j. l \<in> set ls \<and> i < j \<and> j < length (l_placements l) \<longrightarrow>
              intersection_area (footprint (l_placements l ! i)) (footprint (l_placements l ! j)) = 0 \<and>
              intersection_area (corner_footprint (l_placements l ! i))
                (corner_footprint (l_placements l ! j)) = 0))"
proof -
  have h: "r_status (fst (generate_layouts True (\<lambda>k. False) (plain_job None) [])) = completed"
    by (rule generate_layouts_completes[OF plain_area]) simp
  show ?thesis
    using h layouts_never_overlap[OF h] by simp
qed

section \<open>Properties of the budget filter\<close>







section \<open>Properties of the validator\<close>





lemmas box_defs = minx_def miny_def maxx_def maxy_def poly_bounds_def

subsection \<open>Exact arithmetic\<close>





subsection \<open>The library on rectangles\<close>







lemma interiors_in_regions: "interior_points g \<subseteq> region g"
  by (auto simp: interior_points_def region_def)


lemma rectangle_library_contains: "contains_interior rectangle_library"
  by (auto simp: contains_interior_def rectangle_library_def rect_contains_point_def
      interior_points_def)












lemmas vgeom_defs = create_furniture_geometries_def create_furniture_geometry_def
  opt_default_def unit_square_at_def long_piece_def Let_def




lemma accessibility_returns:
  "fl_mul ar (lib_area L (room_polygon rg)) 0.4 \<noteq> 0 \<Longrightarrow>
   analyze_accessibility L ar gs rg fp =
     Inr \<lparr>score = fl_round ar
                    (mean_or_one (door_access_scores L gs fp) * 0.5 +
                     mean_or_one (window_access_scores L gs fp) * 0.3 +
                     min 1 (lib_walkable_area L (room_polygon rg) (map g_geometry gs)
                            / fl_mul ar (lib_area L (room_polygon rg)) 0.4) * 0.2) 3,
          door_accessibility = mean_or_one (door_access_scores L gs fp),
          window_accessibility = mean_or_one (window_access_scores L gs fp),
          flow_efficiency = fl_round ar
                    (min 1 (lib_walkable_area L (room_polygon rg) (map g_geometry gs)
                            / fl_mul ar (lib_area L (room_polygon rg)) 0.4)) 3,
          blocked_doors = length (filter (\<lambda>s. s = 0) (door_access_scores L gs fp)),
          blocked_windows = length (filter (\<lambda>s. s = 0) (window_access_scores L gs fp))\<rparr>"
  by (simp add: analyze_accessibility_def Let_def)

lemma accessibility_raises:
  "fl_mul ar (lib_area L (room_polygon rg)) 0.4 = 0 \<Longrightarrow>
   analyze_accessibility L ar gs rg fp = Inl ZeroDivisionError"
  by (simp add: analyze_accessibility_def Let_def)





text \<open>
  C10, amended: when the float product of the room polygon's area and 0.4 is zero, as it
  is for a room polygon of area 0, the accessibility analysis raises \<open>ZeroDivisionError\<close>
  and returns nothing; otherwise it returns a result, with \<open>door_accessibility = 1\<close> when the
  floor plan has no doors and \<open>window_accessibility = 1\<close> when it has no windows.
\<close>

theorem accessibility_without_openings:
  "(fl_mul ar (lib_area L (room_polygon rg)) 0.4 = 0 \<longrightarrow>
      analyze_accessibility L ar gs rg fp = Inl ZeroDivisionError) \<and>
   (fl_mul ar (lib_area L (room_polygon rg)) 0.4 \<noteq> 0 \<longrightarrow>
      (\<exists>r. analyze_accessibility L ar gs rg fp = Inr r \<and>
           (fp_doors fp = [] \<longrightarrow> door_accessibility r = 1) \<and>
           (fp_windows fp = [] \<longrightarrow> window_accessibility r = 1)))"
  by (simp add: accessibility_raises accessibility_returns door_access_scores_def
      window_access_scores_def mean_or_one_def)

lemma parse_bounded_room:
  "parse_room_geometry L (room_with [] []) = Inr room_5x4"
  by (simp add: parse_room_geometry_def room_with_def room_5x4_def)




lemma room_5x4_area: "rect_area (room_polygon room_5x4) = 20"
  by (simp add: rect_area_def room_5x4_def box_defs)







text \<open>
  C10 as stated fails: a floor plan without doors whose bounds have no width has a room
  polygon of area 0, and the accessibility analysis raises \<open>ZeroDivisionError\<close> instead of
  returning a door accessibility of 1.
\<close>

theorem flat_room_not_analysed:
  "fp_doors flat_room = [] \<and> fp_windows flat_room = [] \<and>
   (\<exists>rg. parse_room_geometry rectangle_library flat_room = Inr rg \<and>
         analyze_accessibility rectangle_library exact_ops [] rg flat_room = Inl ZeroDivisionError)"
  by (simp add: flat_room_def parse_room_geometry_def analyze_accessibility_def Let_def
      rectangle_library_def exact_ops_def rect_area_def box_defs)

theorem accessibility_without_openings_witness:
  "fl_mul exact_ops (lib_area rectangle_library (room_polygon room_5x4)) 0.4 \<noteq> 0 \<and>
   fp_doors (room_with [] []) = [] \<and> fp_windows (room_with [] []) = [] \<and>
   parse_room_geometry rectangle_library (room_with [] []) = Inr room_5x4 \<and>
   (\<exists>r. analyze_accessibility rectangle_library exact_ops two_squares room_5x4 (room_with [] []) = Inr r \<and>
        door_accessibility r = 1 \<and> window_accessibility r = 1)"
proof -
  have nz: "fl_mul exact_ops (lib_area rectangle_library (room_polygon room_5x4)) 0.4 \<noteq> 0"
    by (simp add: exact_ops_def rectangle_library_def room_5x4_area)
  show ?thesis
    using accessibility_without_openings[of exact_ops rectangle_library room_5x4 two_squares
        "room_with [] []"] nz parse_bounded_room[of rectangle_library]
    by (simp add: room_with_def)
qed










lemma fold_min_distance:
  "fold (\<lambda>furniture m. case m of None \<Rightarrow> Some (lib_point_distance L p (g_geometry furniture))
                         | Some v \<Rightarrow> Some (min v (lib_point_distance L p (g_geometry furniture))))
     gs (Some a)
   = Some (Min (insert a ((\<lambda>g. lib_point_distance L p (g_geometry g)) ` set gs)))"
proof (induction gs arbitrary: a)
  case Nil
  then show ?case by simp
next
  case (Cons g gs)
  let ?D = "(\<lambda>g. lib_point_distance L p (g_geometry g)) ` set gs"
  have fin: "finite ?D" by simp
  have "Min (insert (min a (lib_point_distance L p (g_geometry g))) ?D)
      = Min (insert a (insert (lib_point_distance L p (g_geometry g)) ?D))"
  proof (cases "?D = {}")
    case True
    then show ?thesis by simp
  next
    case False
    then show ?thesis using fin by (simp add: min.assoc)
  qed
  then show ?case
    by (simp add: Cons.IH)
qed

lemma min_distance_Min:
  "min_distance L gs p =
     (if gs = [] then None else Some (Min ((\<lambda>g. lib_point_distance L p (g_geometry g)) ` set gs)))"
proof (cases gs)
  case Nil
  then show ?thesis by (simp add: min_distance_def)
next
  case (Cons g gs')
  then show ?thesis
    by (simp add: min_distance_def Let_def fold_min_distance)
qed

lemma heat_cell_values:
  "(heat_cell L gs room p = - 1 \<or> 0 \<le> heat_cell L gs room p \<and> heat_cell L gs room p \<le> 1) \<and>
   (heat_cell L gs room p = - 1 \<longleftrightarrow> \<not> lib_contains_point L room p) \<and>
   (lib_contains_point L room p \<longrightarrow>
      heat_cell L gs room p =
        (if gs = [] then 1
         else let d = Min ((\<lambda>g. lib_point_distance L p (g_geometry g)) ` set gs)
              in if d < 0.3 then 0 else if 1.5 < d then 1 else (d - 0.3) / 1.2))"
  by (auto simp: heat_cell_def min_distance_Min Let_def)

lemma heatmap_grid_nth:
  assumes "i < length (grid (generate_navigation_heatmap L ar gs rg))"
    and "j < length (grid (generate_navigation_heatmap L ar gs rg) ! i)"
  shows "grid (generate_navigation_heatmap L ar gs rg) ! i ! j =
           heat_cell L gs (room_polygon rg) (cell_point ar (room_polygon rg) i j)"
  using assms by (simp add: generate_navigation_heatmap_def Let_def)

text \<open>
  C5, amended: every cell of the navigation heatmap holds -1 or a value between 0 and 1.
  The point sampled for a cell is its corner \<open>(min_x + j * 0.2, min_y + i * 0.2)\<close>, not its
  centre.  The cell holds -1 if and only if the library's \<open>contains\<close> is false of the room
  polygon and the sampled point; for a rectangular room and a library whose \<open>contains\<close> is
  true of the interior points only, that is if and only if the sampled point is not in
  the interior of the room, so that a point on the boundary of the room also gets -1.
  For a point that the room contains, the value is 1 when there is no furniture, and
  otherwise 0 when the least distance \<open>d\<close> from the point to a furniture geometry is below
  0.3, 1 when \<open>d\<close> is above 1.5 and \<open>(d - 0.3) / 1.2\<close> in between.
\<close>

theorem heatmap_cell_values:
  assumes "i < length (grid (generate_navigation_heatmap L ar gs rg))"
    and "j < length (grid (generate_navigation_heatmap L ar gs rg) ! i)"
  shows "(grid (generate_navigation_heatmap L ar gs rg) ! i ! j = - 1 \<or>
          0 \<le> grid (generate_navigation_heatmap L ar gs rg) ! i ! j \<and>
          grid (generate_navigation_heatmap L ar gs rg) ! i ! j \<le> 1) \<and>
         (grid (generate_navigation_heatmap L ar gs rg) ! i ! j = - 1 \<longleftrightarrow>
          \<not> lib_contains_point L (room_polygon rg) (cell_point ar (room_polygon rg) i j)) \<and>
         (lib_contains_point L (room_polygon rg) (cell_point ar (room_polygon rg) i j) \<longrightarrow>
          grid (generate_navigation_heatmap L ar gs rg) ! i ! j =
            (if gs = [] then 1
             else let d = Min ((\<lambda>g. lib_point_distance L (cell_point ar (room_polygon rg) i j)
                                      (g_geometry g)) ` set gs)
                  in if d < 0.3 then 0 else if 1.5 < d then 1 else (d - 0.3) / 1.2)) \<and>
         (contains_interior L \<and> is_rectangle (room_polygon rg) \<longrightarrow>
            (grid (generate_navigation_heatmap L ar gs rg) ! i ! j = - 1 \<longleftrightarrow>
             cell_point ar (room_polygon rg) i j \<notin> interior_points (room_polygon rg)))"
proof -
  let ?p = "cell_point ar (room_polygon rg) i j"
  note hc = heat_cell_values[of L gs "room_polygon rg" ?p]
  have "heat_cell L gs (room_polygon rg) ?p = - 1 \<longleftrightarrow> ?p \<notin> interior_points (room_polygon rg)"
    if "contains_interior L \<and> is_rectangle (room_polygon rg)"
  proof -
    have "lib_contains_point L (room_polygon rg) ?p \<longleftrightarrow> ?p \<in> interior_points (room_polygon rg)"
      using that unfolding contains_interior_def by blast
    with hc show ?thesis by blast
  qed
  with hc show ?thesis
    unfolding heatmap_grid_nth[OF assms] by blast
qed

lemma room_5x4_box:
  "minx (room_polygon room_5x4) = 0" "miny (room_polygon room_5x4) = 0"
  "maxx (room_polygon room_5x4) = 5" "maxy (room_polygon room_5x4) = 4"
  by (simp_all add: room_5x4_def box_defs)

lemma room_5x4_rectangle: "is_rectangle (room_polygon room_5x4)"
  by (simp add: room_5x4_def is_rectangle_def box_defs)

lemma heatmap_5x4_size:
  "length (grid (generate_navigation_heatmap L exact_ops gs room_5x4)) = 21"
  "i < 21 \<Longrightarrow> length (grid (generate_navigation_heatmap L exact_ops gs room_5x4) ! i) = 26"
  by (simp_all add: generate_navigation_heatmap_def Let_def room_5x4_box py_int_def exact_ops_def)

lemma cell_point_5x4:
  "cell_point exact_ops (room_polygon room_5x4) i j = (real j * 0.2, real i * 0.2)"
  by (simp add: cell_point_def room_5x4_box exact_ops_def)

text \<open>
  C5 as stated fails: in a 5 m by 4 m room the point sampled for cell (0, 0) is the corner
  \<open>(0, 0)\<close> of the room, a point of the room polygon, and the centre \<open>(0.1, 0.1)\<close> of the cell
  lies inside the room, yet the cell holds -1.
\<close>

theorem boundary_cell_marked_outside:
  "0 < length (grid (generate_navigation_heatmap rectangle_library exact_ops [] room_5x4)) \<and>
   0 < length (grid (generate_navigation_heatmap rectangle_library exact_ops [] room_5x4) ! 0) \<and>
   grid (generate_navigation_heatmap rectangle_library exact_ops [] room_5x4) ! 0 ! 0 = - 1 \<and>
   cell_point exact_ops (room_polygon room_5x4) 0 0 = (0, 0) \<and>
   (0, 0) \<in> region (room_polygon room_5x4) \<and>
   (0.1, 0.1) \<in> interior_points (room_polygon room_5x4)"
proof -
  have h1: "0 < length (grid (generate_navigation_heatmap rectangle_library exact_ops [] room_5x4))"
    by (simp add: heatmap_5x4_size)
  have h2: "0 < length (grid (generate_navigation_heatmap rectangle_library exact_ops [] room_5x4) ! 0)"
    by (simp add: heatmap_5x4_size)
  have "grid (generate_navigation_heatmap rectangle_library exact_ops [] room_5x4) ! 0 ! 0 = - 1"
    unfolding heatmap_grid_nth[OF h1 h2] cell_point_5x4
    by (simp add: heat_cell_def rectangle_library_def rect_contains_point_def room_5x4_box)
  moreover have "(0, 0) \<in> region (room_polygon room_5x4)"
    by (simp add: region_def room_5x4_box)
  moreover have "(0.1, 0.1) \<in> interior_points (room_polygon room_5x4)"
    by (simp add: interior_points_def room_5x4_box)
  ultimately show ?thesis using h1 h2 by (simp add: cell_point_5x4)
qed

theorem heatmap_cell_values_witness:
  "5 < length (grid (generate_navigation_heatmap rectangle_library exact_ops two_squares room_5x4)) \<and>
   15 < length (grid (generate_navigation_heatmap rectangle_library exact_ops two_squares room_5x4) ! 5) \<and>
   contains_interior rectangle_library \<and> is_rectangle (room_polygon room_5x4) \<and>
   cell_point exact_ops (room_polygon room_5x4) 5 15 = (3, 1) \<and>
   (3, 1) \<in> interior_points (room_polygon room_5x4) \<and>
   grid (generate_navigation_heatmap rectangle_library exact_ops two_squares room_5x4) ! 5 ! 15 = 7 / 12"
proof -
  have h1: "5 < length (grid (generate_navigation_heatmap rectangle_library exact_ops two_squares room_5x4))"
    by (simp add: heatmap_5x4_size)
  have h2: "15 < length (grid (generate_navigation_heatmap rectangle_library exact_ops two_squares room_5x4) ! 5)"
    by (simp add: heatmap_5x4_size)
  have cp: "cell_point exact_ops (room_polygon room_5x4) 5 15 = (3, 1)"
    by (simp add: cell_point_5x4)
  have c: "lib_contains_point rectangle_library (room_polygon room_5x4) (3, 1)"
    by (simp add: rectangle_library_def rect_contains_point_def room_5x4_box)
  have i: "(3, 1) \<in> interior_points (room_polygon room_5x4)"
    by (simp add: interior_points_def room_5x4_box)
  have d: "Min ((\<lambda>g. lib_point_distance rectangle_library (3, 1) (g_geometry g)) ` set two_squares) = 1"
    by (simp add: two_squares_def vgeom_defs rectangle_library_def rect_point_distance_def box_defs)
  have ne: "two_squares \<noteq> []"
    by (simp add: two_squares_def create_furniture_geometries_def)
  show ?thesis
    using h1 h2 c i rectangle_library_contains room_5x4_rectangle
      heatmap_cell_values[OF h1 h2]
    by (simp add: cp d ne)
qed





lemma touching_squares_geometry:
  "map g_geometry touching_squares =
     [[(1 / 2, 1 / 2), (3 / 2, 1 / 2), (3 / 2, 3 / 2), (1 / 2, 3 / 2)],
      [(3 / 2, 1 / 2), (5 / 2, 1 / 2), (5 / 2, 3 / 2), (3 / 2, 3 / 2)]]"
  by (simp add: touching_squares_def vgeom_defs)



subsection \<open>Footprints and rooms that are rectangles\<close>

lemma rectangle_corners:
  assumes "x0 < x1" and "y0 < y1"
  shows "is_rectangle [(x0, y0), (x1, y0), (x1, y1), (x0, y1)]"
  using assms by (simp add: is_rectangle_def box_defs)

lemma unrotated_footprint_rectangle:
  assumes "v_rotation p = None \<or> v_rotation p = Some 0"
    and "0 < width (opt_default (v_dimensions p) \<lparr>width = 1, depth = 1, height = 0.8\<rparr>)"
    and "0 < depth (opt_default (v_dimensions p) \<lparr>width = 1, depth = 1, height = 0.8\<rparr>)"
  shows "is_rectangle (g_geometry (create_furniture_geometry p))"
proof -
  define dims where "dims = opt_default (v_dimensions p) \<lparr>width = 1, depth = 1, height = 0.8\<rparr>"
  define px where "px = opt_default (v_x p) 0"
  define py where "py = opt_default (v_y p) 0"
  have rot: "opt_default (v_rotation p) 0 = 0"
    using assms(1) by (auto simp: opt_default_def)
  have "g_geometry (create_furniture_geometry p) =
      [(px - width dims / 2, py - depth dims / 2), (px + width dims / 2, py - depth dims / 2),
       (px + width dims / 2, py + depth dims / 2), (px - width dims / 2, py + depth dims / 2)]"
    unfolding create_furniture_geometry_def Let_def rot dims_def px_def py_def by simp
  moreover have "px - width dims / 2 < px + width dims / 2" "py - depth dims / 2 < py + depth dims / 2"
    using assms(2,3) by (simp_all add: dims_def)
  ultimately show ?thesis
    by (simp only: rectangle_corners)
qed

lemma bounded_room_rectangle:
  assumes "parse_room_geometry L fp = Inr rg" and "fp_bounds fp = Some b"
    and "min_x b < max_x b" and "min_y b < max_y b"
  shows "is_rectangle (room_polygon rg)"
proof -
  have "room_polygon rg = [(min_x b, min_y b), (max_x b, min_y b), (max_x b, max_y b), (min_x b, max_y b)]"
    using assms(1,2) by (auto simp: parse_room_geometry_def Let_def)
  then show ?thesis
    by (simp only: rectangle_corners[OF assms(3,4)])
qed

section \<open>Properties of the constraint solver\<close>

lemma for_each_returns:
  "(\<And>x. x \<in> set xs \<Longrightarrow> body x = Inr ()) \<Longrightarrow> for_each body xs = Inr ()"
  by (induction xs) (simp_all add: then_do_def)

lemma solve_layout_outcome:
  "solve_layout outcome furniture_items room objectives =
     (if furniture_items = [] then Inr [] else Inl Raised)"
proof (cases furniture_items)
  case Nil
  then show ?thesis
    by (simp add: solve_layout_def add_boundary_constraints_def add_collision_constraints_def
        add_clearance_constraints_def add_door_constraints_def add_window_constraints_def
        add_functional_constraints_def add_objectives_def then_do_def extract_solution_def
        for_each_returns)
next
  case (Cons item items)
  then show ?thesis
    by (simp add: solve_layout_def add_boundary_constraints_def then_do_def only_enforce_if_def
        rot_is_def placed_var_def)
qed


lemma round_trip_without_items:
  assumes "solve_layout outcome furniture_items room objectives = Inr placements"
  shows "furniture_items = [] \<and> placements = [] \<and>
         collision_pairs (check_collisions L (create_furniture_geometries []) room_geometry) = []"
  using assms
  by (simp add: solve_layout_outcome check_collisions_def create_furniture_geometries_def
      split: if_splits)

end
